theory Spec2Isabelle
  imports Main "HOL-Library.Sublist" "HOL-Library.AList"
begin

section \<open>Text\<close>

text \<open>
  The generator of \<^verbatim>\<open>cli.js\<close> builds every file body as a JavaScript string and
  hands it to \<^verbatim>\<open>fs.writeFileSync\<close>, which stores its UTF-8 encoding. A text is
  modelled as the list of the bytes of that encoding (\<^typ>\<open>string\<close>): an ASCII
  character is one \<^typ>\<open>char\<close>, the emoji of the templates are written out as their
  three or four bytes. What the user types at a prompt is a text of the same kind.
\<close>

definition startsWith :: "string \<Rightarrow> string \<Rightarrow> bool" where
  "startsWith s p = (take (length p) s = p)"

fun join :: "string \<Rightarrow> string list \<Rightarrow> string" where
  "join sep [] = []"
| "join sep [x] = x"
| "join sep (x # y # ys) = x @ sep @ join sep (y # ys)"

text \<open>
  The white space and line terminators of ECMAScript (what \<^verbatim>\<open>String.prototype.trim\<close>
  and \<^verbatim>\<open>parseInt\<close> skip), each as its UTF-8 bytes: TAB, LF, VT, FF, CR, SP, U+00A0,
  U+1680, U+2000 to U+200A, U+2028, U+2029, U+202F, U+205F, U+3000 and U+FEFF.
\<close>

definition jsWhitespace :: "string list" where
  "jsWhitespace =
    [[CHR 0x09], [CHR 0x0A], [CHR 0x0B], [CHR 0x0C], [CHR 0x0D], [CHR 0x20],
     [CHR 0xC2, CHR 0xA0],
     [CHR 0xE1, CHR 0x9A, CHR 0x80],
     [CHR 0xE2, CHR 0x80, CHR 0x80], [CHR 0xE2, CHR 0x80, CHR 0x81],
     [CHR 0xE2, CHR 0x80, CHR 0x82], [CHR 0xE2, CHR 0x80, CHR 0x83],
     [CHR 0xE2, CHR 0x80, CHR 0x84], [CHR 0xE2, CHR 0x80, CHR 0x85],
     [CHR 0xE2, CHR 0x80, CHR 0x86], [CHR 0xE2, CHR 0x80, CHR 0x87],
     [CHR 0xE2, CHR 0x80, CHR 0x88], [CHR 0xE2, CHR 0x80, CHR 0x89],
     [CHR 0xE2, CHR 0x80, CHR 0x8A],
     [CHR 0xE2, CHR 0x80, CHR 0xA8], [CHR 0xE2, CHR 0x80, CHR 0xA9],
     [CHR 0xE2, CHR 0x80, CHR 0xAF],
     [CHR 0xE2, CHR 0x81, CHR 0x9F],
     [CHR 0xE3, CHR 0x80, CHR 0x80],
     [CHR 0xEF, CHR 0xBB, CHR 0xBF]]"

text \<open>Dropping, from the front of a text, every leading occurrence of a word of a table.\<close>

function stripLeading :: "string list \<Rightarrow> string \<Rightarrow> string" where
  "stripLeading ws s =
     (case find (\<lambda>w. w \<noteq> [] \<and> prefix w s) ws of
        None \<Rightarrow> s
      | Some w \<Rightarrow> stripLeading ws (drop (length w) s))"
  by pat_completeness auto
termination
  by (relation "measure (\<lambda>(ws, s). length s)") (auto simp: find_Some_iff prefix_def)

declare stripLeading.simps [simp del]

definition trimStart :: "string \<Rightarrow> string" where
  "trimStart s = stripLeading jsWhitespace s"

definition trimEnd :: "string \<Rightarrow> string" where
  "trimEnd s = rev (stripLeading (map rev jsWhitespace) (rev s))"

definition trim :: "string \<Rightarrow> string" where
  "trim s = trimEnd (trimStart s)"

text \<open>
  Lower-casing of the ASCII letters. \<^verbatim>\<open>String.prototype.toLowerCase\<close> itself follows
  the Unicode case mapping and is a parameter of the run (see the record of the world
  below); on a text of ASCII characters it gives what this function gives, which is how
  the concrete worlds of the examples fill that parameter.
\<close>

definition asciiLowerCase :: "string \<Rightarrow> string" where
  "asciiLowerCase s =
     map (\<lambda>c. if 65 \<le> (of_char c :: nat) \<and> (of_char c :: nat) \<le> 90
               then char_of ((of_char c :: nat) + 32) else c) s"

subsection \<open>parseInt with radix 10\<close>

text \<open>
  \<^verbatim>\<open>parseInt(input, 10)\<close>: leading white space is skipped, one sign is read, then the
  longest run of decimal digits; no digit at all gives \<^verbatim>\<open>NaN\<close>, here \<^const>\<open>None\<close>.
  Whatever follows the digits is ignored. The value is kept as a mathematical integer;
  JavaScript rounds it to a double, which changes no comparison with 0 or 65536 (rounding
  is monotone and both bounds are doubles).
\<close>

definition isDigit :: "char \<Rightarrow> bool" where
  "isDigit c = (48 \<le> (of_char c :: nat) \<and> (of_char c :: nat) \<le> 57)"

definition digitsValue :: "string \<Rightarrow> int" where
  "digitsValue ds = foldl (\<lambda>acc d. 10 * acc + int ((of_char d :: nat) - 48)) 0 ds"

definition parseInt10 :: "string \<Rightarrow> int option" where
  "parseInt10 input =
     (let s = trimStart input;
          sign = (if startsWith s ''-'' then - 1 else (1 :: int));
          r = (if startsWith s ''-'' \<or> startsWith s ''+'' then drop 1 s else s);
          ds = takeWhile isDigit r
      in if ds = [] then None else Some (sign * digitsValue ds))"

section \<open>JSON values\<close>

text \<open>
  The manifest \<^verbatim>\<open>package.json\<close> is read with \<^verbatim>\<open>JSON.parse\<close>, changed as an object
  and written back with \<^verbatim>\<open>JSON.stringify\<close>; \<^verbatim>\<open>tsconfig.json\<close> is built as an object.
  An object is the list of its properties in insertion order. Numbers are integers here
  (the generator never reads or writes one).
\<close>

datatype json =
    JNull
  | JBool bool
  | JNum int
  | JStr string
  | JArr "json list"
  | JObj "(string \<times> json) list"

datatype error = TypeError | ExecFailed string

text \<open>
  Reading a property that none of the prototypes has (the generator reads only
  \<^verbatim>\<open>scripts\<close>): \<^verbatim>\<open>undefined\<close> is \<^const>\<open>None\<close>; \<^verbatim>\<open>null\<close> has no properties.
\<close>

fun getProp :: "json \<Rightarrow> string \<Rightarrow> error + json option" where
  "getProp (JObj kvs) k = Inr (map_of kvs k)"
| "getProp JNull k = Inl TypeError"
| "getProp v k = Inr None"

text \<open>
  Assigning a property whose name is no array index (\<^verbatim>\<open>type\<close>, \<^verbatim>\<open>start\<close>,
  \<^verbatim>\<open>dev\<close>). The generator is an ES module, hence strict code: the assignment on a
  primitive value or on \<^verbatim>\<open>null\<close> throws. On an array it succeeds, but
  \<^verbatim>\<open>JSON.stringify\<close> writes the elements of an array only.
\<close>

fun setProp :: "json \<Rightarrow> string \<Rightarrow> json \<Rightarrow> error + json" where
  "setProp (JObj kvs) k v = Inr (JObj (AList.update k v kvs))"
| "setProp (JArr xs) k v = Inr (JArr xs)"
| "setProp j k v = Inl TypeError"

text \<open>\<^verbatim>\<open>pkgJson.scripts[k] = v\<close>: the object held by \<^verbatim>\<open>scripts\<close> is changed in place.\<close>

definition setScript :: "json \<Rightarrow> string \<Rightarrow> string \<Rightarrow> error + json" where
  "setScript pkgJson k v =
     (case getProp pkgJson ''scripts'' of
        Inl e \<Rightarrow> Inl e
      | Inr None \<Rightarrow> Inl TypeError
      | Inr (Some scripts) \<Rightarrow>
          (case setProp scripts k (JStr v) of
             Inl e \<Rightarrow> Inl e
           | Inr scripts' \<Rightarrow> setProp pkgJson ''scripts'' scripts'))"

definition tsconfig :: "bool \<Rightarrow> json" where
  \<open>tsconfig isESM =
     JObj [
       (''compilerOptions'', JObj ([
          (''target'', JStr ''ES2020''),
          (''module'', JStr (if isESM then ''NodeNext'' else ''CommonJS'')),
          (''moduleResolution'', JStr (if isESM then ''NodeNext'' else ''Node'')),
          (''outDir'', JStr ''dist''),
          (''rootDir'', JStr ''./src''),
          (''strict'', JBool True),
          (''esModuleInterop'', JBool True),
          (''forceConsistentCasingInFileNames'', JBool True)]
          @ (if isESM then [(''allowSyntheticDefaultImports'', JBool True)] else []))),
       (''include'', JArr [JStr ''src/**/*.ts'']),
       (''exclude'', JArr [JStr ''node_modules''])]\<close>

definition updatePkgJson :: "bool \<Rightarrow> bool \<Rightarrow> json \<Rightarrow> error + json" where
  \<open>updatePkgJson isTS isESM pkgJson =
     (case (if isESM then setProp pkgJson ''type'' (JStr ''module'') else Inr pkgJson) of
        Inl e \<Rightarrow> Inl e
      | Inr p1 \<Rightarrow>
          (if isTS then
             (case setScript p1 ''start'' ''node dist/server.js'' of
                Inl e \<Rightarrow> Inl e
              | Inr p2 \<Rightarrow>
                  setScript p2 ''dev''
                    (if isESM then ''node --loader ts-node/esm src/server.ts''
                     else ''ts-node src/server.ts''))
           else
             (case setScript p1 ''start'' ''node src/server.js'' of
                Inl e \<Rightarrow> Inl e
              | Inr p2 \<Rightarrow> setScript p2 ''dev'' ''nodemon src/server.js'')))\<close>

section \<open>The templates\<close>

text \<open>
  Each template literal of the source, line by line. \<^verbatim>\<open>${...}\<close> is the splice of a
  parameter. The two logger texts are trimmed, as in the source. The Jenkinsfile template
  calls \<^verbatim>\<open>projectName.toLowerCase()\<close>; that function is its first parameter.
\<close>

definition LOGGER_TS_ESM :: string where
  \<open>LOGGER_TS_ESM = trim
    (''\<newline>'' @
     ''import winston from 'winston';\<newline>'' @
     ''\<newline>'' @
     ''const customFormat = winston.format.combine(\<newline>'' @
     ''  winston.format.colorize(),\<newline>'' @
     ''  winston.format.timestamp({ format: 'YYYY-MM-DD HH:mm:ss' }),\<newline>'' @
     ''  winston.format.printf(({ timestamp, level, message }) => {\<newline>'' @
     ''    return `${timestamp} ${level}: ${message}`;\<newline>'' @
     ''  })\<newline>'' @
     '');\<newline>'' @
     ''\<newline>'' @
     ''const logger = winston.createLogger({\<newline>'' @
     ''  level: 'info',\<newline>'' @
     ''  format: customFormat,\<newline>'' @
     ''  transports: [\<newline>'' @
     ''    new winston.transports.Console(),\<newline>'' @
     ''    new winston.transports.File({\<newline>'' @
     ''      filename: 'combined.log',\<newline>'' @
     ''      format: winston.format.json()\<newline>'' @
     ''    })\<newline>'' @
     ''  ]\<newline>'' @
     ''});\<newline>'' @
     ''\<newline>'' @
     ''export default logger;\<newline>'')\<close>

definition LOGGER_JS_ESM :: string where
  "LOGGER_JS_ESM = LOGGER_TS_ESM"

definition LOGGER_TS_CJS :: string where
  \<open>LOGGER_TS_CJS = trim
    (''\<newline>'' @
     ''const winston = require('winston');\<newline>'' @
     ''\<newline>'' @
     ''const customFormat = winston.format.combine(\<newline>'' @
     ''  winston.format.colorize(),\<newline>'' @
     ''  winston.format.timestamp({ format: 'YYYY-MM-DD HH:mm:ss' }),\<newline>'' @
     ''  winston.format.printf(({ timestamp, level, message }) => {\<newline>'' @
     ''    return `${timestamp} ${level}: ${message}`;\<newline>'' @
     ''  })\<newline>'' @
     '');\<newline>'' @
     ''\<newline>'' @
     ''const logger = winston.createLogger({\<newline>'' @
     ''  level: 'info',\<newline>'' @
     ''  format: customFormat,\<newline>'' @
     ''  transports: [\<newline>'' @
     ''    new winston.transports.Console(),\<newline>'' @
     ''    new winston.transports.File({\<newline>'' @
     ''      filename: 'combined.log',\<newline>'' @
     ''      format: winston.format.json()\<newline>'' @
     ''    })\<newline>'' @
     ''  ]\<newline>'' @
     ''});\<newline>'' @
     ''\<newline>'' @
     ''module.exports = logger;\<newline>'')\<close>

definition LOGGER_JS_CJS :: string where
  "LOGGER_JS_CJS = LOGGER_TS_CJS"

definition envContent :: "string \<Rightarrow> string" where
  \<open>envContent port =
     ''PORT='' @ port @ ''\<newline>'' @
     ''DB_URI=\<newline>'' @
     ''API_VERSION=v1\<newline>''\<close>

definition dbContent :: "bool \<Rightarrow> bool \<Rightarrow> string" where
  \<open>dbContent isTS isESM =
    (if isTS then
       ''export async function connectToDatabase(): Promise<void> {\<newline>'' @
       ''  console.log("'' @ [CHR 0xF0, CHR 0x9F, CHR 0x93, CHR 0xA6] @ '' Connected to database");\<newline>'' @
       ''}''
     else if isESM then
       ''export async function connectToDatabase() {\<newline>'' @
       ''  console.log("'' @ [CHR 0xF0, CHR 0x9F, CHR 0x93, CHR 0xA6] @ '' Connected to database");\<newline>'' @
       ''}''
     else
       ''async function connectToDatabase() {\<newline>'' @
       ''  console.log("'' @ [CHR 0xF0, CHR 0x9F, CHR 0x93, CHR 0xA6] @ '' Connected to database");\<newline>'' @
       ''}\<newline>'' @
       ''module.exports = { connectToDatabase };'')\<close>

definition swaggerContent :: "bool \<Rightarrow> bool \<Rightarrow> string" where
  \<open>swaggerContent isTS isESM =
    (if isTS then
       ''import swaggerUi from 'swagger-ui-express';\<newline>'' @
       ''import { Express } from 'express';\<newline>'' @
       ''\<newline>'' @
       ''export function setupSwagger(app: Express) {\<newline>'' @
       ''  const swaggerSpec = { openapi: '3.0.0', info: { title: 'API Docs', version: '1.0.0' } };\<newline>'' @
       ''  app.use('/docs', swaggerUi.serve, swaggerUi.setup(swaggerSpec));\<newline>'' @
       ''}''
     else if isESM then
       ''import swaggerUi from 'swagger-ui-express';\<newline>'' @
       ''\<newline>'' @
       ''export function setupSwagger(app) {\<newline>'' @
       ''  const swaggerSpec = { openapi: '3.0.0', info: { title: 'API Docs', version: '1.0.0' } };\<newline>'' @
       ''  app.use('/docs', swaggerUi.serve, swaggerUi.setup(swaggerSpec));\<newline>'' @
       ''}''
     else
       ''const swaggerUi = require('swagger-ui-express');\<newline>'' @
       ''function setupSwagger(app) {\<newline>'' @
       ''  const swaggerSpec = { openapi: '3.0.0', info: { title: 'API Docs', version: '1.0.0' } };\<newline>'' @
       ''  app.use('/docs', swaggerUi.serve, swaggerUi.setup(swaggerSpec));\<newline>'' @
       ''}\<newline>'' @
       ''module.exports = { setupSwagger };'')\<close>

definition transactionIdMiddlewareContent :: "bool \<Rightarrow> bool \<Rightarrow> string" where
  \<open>transactionIdMiddlewareContent isTS isESM =
    (if isTS then
       ''import { v4 as uuidv4 } from 'uuid';\<newline>'' @
       ''import { Request, Response, NextFunction } from 'express';\<newline>'' @
       ''\<newline>'' @
       ''declare global { namespace Express { interface Request { transactionId?: string } } }\<newline>'' @
       ''\<newline>'' @
       ''export function transactionIdMiddleware(req: Request, _res: Response, next: NextFunction) {\<newline>'' @
       ''  req.transactionId = uuidv4();\<newline>'' @
       ''  next();\<newline>'' @
       ''}''
     else if isESM then
       ''import { v4 as uuidv4 } from 'uuid';\<newline>'' @
       ''\<newline>'' @
       ''export function transactionIdMiddleware(req, _res, next) {\<newline>'' @
       ''  req.transactionId = uuidv4();\<newline>'' @
       ''  next();\<newline>'' @
       ''}''
     else
       ''const { v4: uuidv4 } = require('uuid');\<newline>'' @
       ''function transactionIdMiddleware(req, _res, next) {\<newline>'' @
       ''  req.transactionId = uuidv4();\<newline>'' @
       ''  next();\<newline>'' @
       ''}\<newline>'' @
       ''module.exports = { transactionIdMiddleware };'')\<close>

definition loggerConsoleContent :: "bool \<Rightarrow> bool \<Rightarrow> string" where
  \<open>loggerConsoleContent isTS isESM =
    (if isTS then
       ''import { Request, Response, NextFunction } from 'express';\<newline>'' @
       ''export function loggerConsole(req: Request, _res: Response, next: NextFunction) {\<newline>'' @
       ''  console.log(`[${req.method}] ${req.url} - txId:${req.transactionId}`);\<newline>'' @
       ''  next();\<newline>'' @
       ''}''
     else if isESM then
       ''export function loggerConsole(req, _res, next) {\<newline>'' @
       ''  console.log(`[${req.method}] ${req.url} - txId:${req.transactionId}`);\<newline>'' @
       ''  next();\<newline>'' @
       ''}''
     else
       ''function loggerConsole(req, _res, next) {\<newline>'' @
       ''  console.log(`[${req.method}] ${req.url} - txId:${req.transactionId}`);\<newline>'' @
       ''  next();\<newline>'' @
       ''}\<newline>'' @
       ''module.exports = { loggerConsole };'')\<close>

definition errorHandlerContent :: "bool \<Rightarrow> bool \<Rightarrow> string" where
  \<open>errorHandlerContent isTS isESM =
    (if isTS then
       ''import { Request, Response, NextFunction } from 'express';\<newline>'' @
       ''\<newline>'' @
       ''export function errorHandler(err: Error, _req: Request, res: Response, _next: NextFunction) {\<newline>'' @
       ''  console.error('' @ [CHR 0x27] @ [CHR 0xE2, CHR 0x9D, CHR 0x8C] @ '' Error:', err.message);\<newline>'' @
       ''  res.status(500).json({ error: err.message });\<newline>'' @
       ''}''
     else if isESM then
       ''export function errorHandler(err, _req, res, _next) {\<newline>'' @
       ''  console.error('' @ [CHR 0x27] @ [CHR 0xE2, CHR 0x9D, CHR 0x8C] @ '' Error:', err.message);\<newline>'' @
       ''  res.status(500).json({ error: err.message });\<newline>'' @
       ''}''
     else
       ''function errorHandler(err, _req, res, _next) {\<newline>'' @
       ''  console.error('' @ [CHR 0x27] @ [CHR 0xE2, CHR 0x9D, CHR 0x8C] @ '' Error:', err.message);\<newline>'' @
       ''  res.status(500).json({ error: err.message });\<newline>'' @
       ''}\<newline>'' @
       ''module.exports = { errorHandler };'')\<close>

definition healthCheckRouteContent :: "bool \<Rightarrow> bool \<Rightarrow> string" where
  \<open>healthCheckRouteContent isTS isESM =
    (if isTS then
       ''import { Router } from 'express';\<newline>'' @
       ''\<newline>'' @
       ''const router = Router();\<newline>'' @
       ''\<newline>'' @
       ''router.get('/health', (req, res) => {\<newline>'' @
       ''  res.json({ status: 'ok', transactionId: req.transactionId });\<newline>'' @
       ''});\<newline>'' @
       ''\<newline>'' @
       ''export default router;''
     else if isESM then
       ''import { Router } from 'express';\<newline>'' @
       ''\<newline>'' @
       ''const router = Router();\<newline>'' @
       ''\<newline>'' @
       ''router.get('/health', (req, res) => {\<newline>'' @
       ''  res.json({ status: 'ok', transactionId: req.transactionId });\<newline>'' @
       ''});\<newline>'' @
       ''\<newline>'' @
       ''export default router;''
     else
       ''const { Router } = require('express');\<newline>'' @
       ''\<newline>'' @
       ''const router = Router();\<newline>'' @
       ''\<newline>'' @
       ''router.get('/health', (req, res) => {\<newline>'' @
       ''  res.json({ status: 'ok', transactionId: req.transactionId });\<newline>'' @
       ''});\<newline>'' @
       ''\<newline>'' @
       ''module.exports = router;'')\<close>

definition appFileContent :: "bool \<Rightarrow> bool \<Rightarrow> string \<Rightarrow> string" where
  \<open>appFileContent isTS isESM esmExt =
    (if isTS then
       ''import express from 'express';\<newline>'' @
       ''import cors from 'cors';\<newline>'' @
       ''import cookieParser from 'cookie-parser';\<newline>'' @
       ''import { transactionIdMiddleware } from './middleware/transactionIdMiddleware'' @ esmExt @ [CHR 0x27] @ '';\<newline>'' @
       ''import { loggerConsole } from './middleware/loggerConsole'' @ esmExt @ [CHR 0x27] @ '';\<newline>'' @
       ''import { errorHandler } from './middleware/errorHandler'' @ esmExt @ [CHR 0x27] @ '';\<newline>'' @
       ''import { setupSwagger } from './config/swagger'' @ esmExt @ [CHR 0x27] @ '';\<newline>'' @
       ''import healthCheckRoute from './routes/healthCheckRoute'' @ esmExt @ [CHR 0x27] @ '';\<newline>'' @
       ''import { env } from 'process';\<newline>'' @
       ''\<newline>'' @
       ''const app = express();\<newline>'' @
       ''\<newline>'' @
       ''app.use(cors());\<newline>'' @
       ''app.use(express.json());\<newline>'' @
       ''app.use(cookieParser());\<newline>'' @
       ''app.use(transactionIdMiddleware);\<newline>'' @
       ''app.use(loggerConsole);\<newline>'' @
       ''\<newline>'' @
       ''const apiVersion = env.API_VERSION || 'v1';\<newline>'' @
       ''app.use(`/api/${apiVersion}`, healthCheckRoute);\<newline>'' @
       ''\<newline>'' @
       ''setupSwagger(app);\<newline>'' @
       ''\<newline>'' @
       ''app.use(errorHandler);\<newline>'' @
       ''\<newline>'' @
       ''export default app;''
     else if isESM then
       ''import express from 'express';\<newline>'' @
       ''import cors from 'cors';\<newline>'' @
       ''import cookieParser from 'cookie-parser';\<newline>'' @
       ''import { transactionIdMiddleware } from './middleware/transactionIdMiddleware.js';\<newline>'' @
       ''import { loggerConsole } from './middleware/loggerConsole.js';\<newline>'' @
       ''import { errorHandler } from './middleware/errorHandler.js';\<newline>'' @
       ''import { setupSwagger } from './config/swagger.js';\<newline>'' @
       ''import healthCheckRoute from './routes/healthCheckRoute.js';\<newline>'' @
       ''\<newline>'' @
       ''const app = express();\<newline>'' @
       ''\<newline>'' @
       ''app.use(cors());\<newline>'' @
       ''app.use(express.json());\<newline>'' @
       ''app.use(cookieParser());\<newline>'' @
       ''app.use(transactionIdMiddleware);\<newline>'' @
       ''app.use(loggerConsole);\<newline>'' @
       ''\<newline>'' @
       ''const apiVersion = process.env.API_VERSION || 'v1';\<newline>'' @
       ''app.use(`/api/${apiVersion}`, healthCheckRoute);\<newline>'' @
       ''\<newline>'' @
       ''setupSwagger(app);\<newline>'' @
       ''\<newline>'' @
       ''app.use(errorHandler);\<newline>'' @
       ''\<newline>'' @
       ''export default app;''
     else
       ''const express = require('express');\<newline>'' @
       ''const cors = require('cors');\<newline>'' @
       ''const cookieParser = require('cookie-parser');\<newline>'' @
       ''const { transactionIdMiddleware } = require('./middleware/transactionIdMiddleware');\<newline>'' @
       ''const { loggerConsole } = require('./middleware/loggerConsole');\<newline>'' @
       ''const { errorHandler } = require('./middleware/errorHandler');\<newline>'' @
       ''const { setupSwagger } = require('./config/swagger');\<newline>'' @
       ''const healthCheckRoute = require('./routes/healthCheckRoute');\<newline>'' @
       ''\<newline>'' @
       ''const app = express();\<newline>'' @
       ''\<newline>'' @
       ''app.use(cors());\<newline>'' @
       ''app.use(express.json());\<newline>'' @
       ''app.use(cookieParser());\<newline>'' @
       ''app.use(transactionIdMiddleware);\<newline>'' @
       ''app.use(loggerConsole);\<newline>'' @
       ''\<newline>'' @
       ''const apiVersion = process.env.API_VERSION || 'v1';\<newline>'' @
       ''app.use(`/api/${apiVersion}`, healthCheckRoute);\<newline>'' @
       ''\<newline>'' @
       ''setupSwagger(app);\<newline>'' @
       ''\<newline>'' @
       ''app.use(errorHandler);\<newline>'' @
       ''\<newline>'' @
       ''module.exports = app;'')\<close>

definition serverFileContent :: "bool \<Rightarrow> bool \<Rightarrow> string \<Rightarrow> string \<Rightarrow> string" where
  \<open>serverFileContent isTS isESM esmExt port =
    (if isTS then
       ''import app from './app'' @ esmExt @ [CHR 0x27] @ '';\<newline>'' @
       ''import dotenv from 'dotenv';\<newline>'' @
       ''import logger from './utils/logger'' @ esmExt @ [CHR 0x27] @ '';\<newline>'' @
       ''import { connectToDatabase } from './config/db'' @ esmExt @ [CHR 0x27] @ '';\<newline>'' @
       ''\<newline>'' @
       ''dotenv.config();\<newline>'' @
       ''\<newline>'' @
       ''const PORT: number = Number(process.env.PORT) || '' @ port @ '';\<newline>'' @
       ''\<newline>'' @
       ''(async () => {\<newline>'' @
       ''  try {\<newline>'' @
       ''    await connectToDatabase();\<newline>'' @
       ''    app.listen(PORT, () => logger.info(`'' @ [CHR 0xF0, CHR 0x9F, CHR 0x9A, CHR 0x80] @ '' Server running at http://localhost:${PORT}`));\<newline>'' @
       ''  } catch (err) {\<newline>'' @
       ''    logger.error('' @ [CHR 0x27] @ [CHR 0xE2, CHR 0x9D, CHR 0x8C] @ '' Failed to start server: ' + (err as Error).message);\<newline>'' @
       ''    process.exit(1);\<newline>'' @
       ''  }\<newline>'' @
       ''})();''
     else if isESM then
       ''import dotenv from 'dotenv';\<newline>'' @
       ''import app from './app.js';\<newline>'' @
       ''import logger from './utils/logger.js';\<newline>'' @
       ''import { connectToDatabase } from './config/db.js';\<newline>'' @
       ''\<newline>'' @
       ''dotenv.config();\<newline>'' @
       ''\<newline>'' @
       ''const PORT = process.env.PORT || '' @ port @ '';\<newline>'' @
       ''\<newline>'' @
       ''(async () => {\<newline>'' @
       ''  try {\<newline>'' @
       ''    await connectToDatabase();\<newline>'' @
       ''    app.listen(PORT, () => logger.info(`'' @ [CHR 0xF0, CHR 0x9F, CHR 0x9A, CHR 0x80] @ '' Server running at http://localhost:${PORT}`));\<newline>'' @
       ''  } catch (err) {\<newline>'' @
       ''    logger.error('' @ [CHR 0x27] @ [CHR 0xE2, CHR 0x9D, CHR 0x8C] @ '' Failed to start server: ' + err.message);\<newline>'' @
       ''    process.exit(1);\<newline>'' @
       ''  }\<newline>'' @
       ''})();''
     else
       ''const dotenv = require('dotenv');\<newline>'' @
       ''const app = require('./app');\<newline>'' @
       ''const logger = require('./utils/logger');\<newline>'' @
       ''const { connectToDatabase } = require('./config/db');\<newline>'' @
       ''\<newline>'' @
       ''dotenv.config();\<newline>'' @
       ''\<newline>'' @
       ''const PORT = process.env.PORT || '' @ port @ '';\<newline>'' @
       ''\<newline>'' @
       ''(async () => {\<newline>'' @
       ''  try {\<newline>'' @
       ''    await connectToDatabase();\<newline>'' @
       ''    app.listen(PORT, () => logger.info(`'' @ [CHR 0xF0, CHR 0x9F, CHR 0x9A, CHR 0x80] @ '' Server running at http://localhost:${PORT}`));\<newline>'' @
       ''  } catch (err) {\<newline>'' @
       ''    logger.error('' @ [CHR 0x27] @ [CHR 0xE2, CHR 0x9D, CHR 0x8C] @ '' Failed to start server: ' + err.message);\<newline>'' @
       ''    process.exit(1);\<newline>'' @
       ''  }\<newline>'' @
       ''})();'')\<close>

definition dockerfileContent :: "bool \<Rightarrow> string \<Rightarrow> string" where
  \<open>dockerfileContent isTS port =
     ''# Dockerfile\<newline>'' @
     ''FROM node:20-alpine\<newline>'' @
     ''\<newline>'' @
     ''WORKDIR /app\<newline>'' @
     ''\<newline>'' @
     ''COPY package*.json ./\<newline>'' @
     ''RUN npm install\<newline>'' @
     ''\<newline>'' @
     ''COPY . .\<newline>'' @
     ''\<newline>'' @
     (if isTS then ''RUN npm run build'' else []) @ ''\<newline>'' @
     ''\<newline>'' @
     ''EXPOSE '' @ port @ ''\<newline>'' @
     ''\<newline>'' @
     ''CMD ["npm", "start"]\<newline>''\<close>

definition dockerComposeContent :: "string \<Rightarrow> string \<Rightarrow> string" where
  \<open>dockerComposeContent projectName port =
     ''version: "3.8"\<newline>'' @
     ''\<newline>'' @
     ''services:\<newline>'' @
     ''  app:\<newline>'' @
     ''    build: .\<newline>'' @
     ''    container_name: '' @ projectName @ ''\<newline>'' @
     ''    ports:\<newline>'' @
     ''      - "'' @ port @ '':'' @ port @ ''"\<newline>'' @
     ''    environment:\<newline>'' @
     ''      - NODE_ENV=development\<newline>'' @
     ''      - PORT='' @ port @ ''\<newline>'' @
     ''    volumes:\<newline>'' @
     ''      - .:/app\<newline>'' @
     ''      - /app/node_modules\<newline>'' @
     ''    command: npm run dev\<newline>''\<close>

definition jenkinsfileContent :: "(string \<Rightarrow> string) \<Rightarrow> bool \<Rightarrow> string \<Rightarrow> string" where
  \<open>jenkinsfileContent toLowerCase isTS projectName =
     ''pipeline {\<newline>'' @
     ''  agent any\<newline>'' @
     ''\<newline>'' @
     ''  stages {\<newline>'' @
     ''    stage('Checkout') {\<newline>'' @
     ''      steps {\<newline>'' @
     ''        checkout scm\<newline>'' @
     ''      }\<newline>'' @
     ''    }\<newline>'' @
     ''\<newline>'' @
     ''    stage('Install') {\<newline>'' @
     ''      steps {\<newline>'' @
     ''        sh 'npm install'' @ [CHR 0x27] @ ''\<newline>'' @
     ''      }\<newline>'' @
     ''    }\<newline>'' @
     ''\<newline>'' @
     ''    '' @ (if isTS then
        ''\<newline>'' @
        ''    stage('Build') {\<newline>'' @
        ''      steps {\<newline>'' @
        ''        sh 'npm run build'' @ [CHR 0x27] @ ''\<newline>'' @
        ''      }\<newline>'' @
        ''    }''
      else []) @ ''\<newline>'' @
     ''\<newline>'' @
     ''    stage('Test') {\<newline>'' @
     ''      steps {\<newline>'' @
     ''        sh 'npm test || echo "No tests configured"'' @ [CHR 0x27] @ ''\<newline>'' @
     ''      }\<newline>'' @
     ''    }\<newline>'' @
     ''\<newline>'' @
     ''    stage('Docker Build & Push') {\<newline>'' @
     ''      steps {\<newline>'' @
     ''        sh 'docker build -t '' @ toLowerCase projectName @ '':latest .'' @ [CHR 0x27] @ ''\<newline>'' @
     ''      }\<newline>'' @
     ''    }\<newline>'' @
     ''  }\<newline>'' @
     ''}\<newline>''\<close>

definition ciContent :: "bool \<Rightarrow> string" where
  \<open>ciContent isTS =
     ''name: Node.js CI\<newline>'' @
     ''\<newline>'' @
     ''on:\<newline>'' @
     ''  push:\<newline>'' @
     ''    branches: [ "main" ]\<newline>'' @
     ''  pull_request:\<newline>'' @
     ''    branches: [ "main" ]\<newline>'' @
     ''\<newline>'' @
     ''jobs:\<newline>'' @
     ''  build:\<newline>'' @
     ''    runs-on: ubuntu-latest\<newline>'' @
     ''\<newline>'' @
     ''    steps:\<newline>'' @
     ''    - uses: actions/checkout@v3\<newline>'' @
     ''    - name: Use Node.js\<newline>'' @
     ''      uses: actions/setup-node@v3\<newline>'' @
     ''      with:\<newline>'' @
     ''        node-version: 20\<newline>'' @
     ''    - run: npm install\<newline>'' @
     ''    '' @ (if isTS then ''- run: npm run build'' else []) @ ''\<newline>'' @
     ''    - run: npm test\<newline>''\<close>

section \<open>The prompts\<close>

text \<open>
  The answers of the first \<^verbatim>\<open>inquirer.prompt\<close> call, as the main script destructures
  them. \<^verbatim>\<open>port\<close> is the text of an \<^verbatim>\<open>input\<close> question, not a number.
\<close>

record answers =
  projectName :: string
  language :: string
  moduleSystem :: string
  packages :: "string list"
  port :: string
  deploymentHelpers :: "string list"

definition isTS :: "answers \<Rightarrow> bool" where
  "isTS a = (language a = ''TypeScript'')"

definition isESM :: "answers \<Rightarrow> bool" where
  "isESM a = startsWith (moduleSystem a) ''ES Modules''"

text \<open>
  An \<^verbatim>\<open>input\<close> question as the source writes it: its name, its default and, where
  there is one, its \<^verbatim>\<open>validate\<close> function. A validator answers \<^verbatim>\<open>true\<close>
  (\<^term>\<open>Valid\<close>) or the message to show.
\<close>

datatype verdict = Valid | Invalid string

record question =
  qname :: string
  qmessage :: string
  qdefault :: string
  qvalidate :: "(string \<Rightarrow> verdict) option"

definition portValidate :: "string \<Rightarrow> verdict" where
  "portValidate input =
     (case parseInt10 input of
        None \<Rightarrow> Invalid ''Please enter a valid port number''
      | Some parsed \<Rightarrow>
          if parsed > 0 \<and> parsed < 65536 then Valid
          else Invalid ''Please enter a valid port number'')"


definition portQuestion :: question where
  "portQuestion =
     \<lparr>qname = ''port'', qmessage = ''Enter the port number for your server:'',
      qdefault = ''3000'', qvalidate = Some portValidate\<rparr>"

definition renameQuestion :: "string \<Rightarrow> question" where
  "renameQuestion oldName =
     \<lparr>qname = ''projectName'', qmessage = ''Enter a new project name:'',
      qdefault = oldName @ ''-new'', qvalidate = None\<rparr>"

text \<open>
  The prompt library (inquirer) is not part of the repository. Its documented contract for
  an \<^verbatim>\<open>input\<close> question is assumed: an empty entry stands for the default; the entry
  is then given to \<^verbatim>\<open>validate\<close>, and the question is asked again until the validator
  answers \<^verbatim>\<open>true\<close>; a question without validator takes every entry. The entries the
  user types are a list; \<^const>\<open>None\<close> means that they ran out before one was taken.
\<close>

definition entered :: "question \<Rightarrow> string \<Rightarrow> string" where
  "entered q entry = (if entry = [] then qdefault q else entry)"

definition accepts :: "question \<Rightarrow> string \<Rightarrow> bool" where
  "accepts q entry =
     (case qvalidate q of None \<Rightarrow> True | Some validate \<Rightarrow> validate (entered q entry) = Valid)"

fun askInput :: "question \<Rightarrow> string list \<Rightarrow> (string \<times> string list) option" where
  "askInput q [] = None"
| "askInput q (entry # entries) =
     (if accepts q entry then Some (entered q entry, entries) else askInput q entries)"

section \<open>The main script\<close>

text \<open>
  What the run does to the world, in order: the calls of \<^verbatim>\<open>fs\<close>,
  \<^verbatim>\<open>process.chdir\<close>, \<^verbatim>\<open>execSync\<close> and the two later prompts. Terminal output is
  left out. A file body is a text, or the JSON value that \<^verbatim>\<open>JSON.stringify(v, null, 2)\<close>
  prints. Paths are as the source writes them, relative to the working directory of the
  moment (\<^verbatim>\<open>path.join\<close> with the separator \<^verbatim>\<open>/\<close>; the manifest path, joined to
  \<^verbatim>\<open>process.cwd()\<close>, is recorded as \<^verbatim>\<open>package.json\<close>).
\<close>

datatype content = Text string | Json json

datatype event =
    ExistsSync string
  | PromptList string "string list"
  | PromptInput string string
  | MkdirSync string
  | Chdir string
  | ExecSync string
  | ReadFileSync string
  | WriteFileSync string content

text \<open>
  How the run ends: it reaches the end of the script, it calls \<^verbatim>\<open>process.exit\<close>, or
  an exception leaves the script (Node then exits with a non-zero status).
\<close>

datatype exitStatus = Completed | Exited nat | Crashed error

text \<open>
  What the run meets: which paths exist when it starts, what the user picks and types at
  the conflict prompts, which shell commands succeed, and the manifest that
  \<^verbatim>\<open>npm init -y\<close> and \<^verbatim>\<open>npm install\<close> leave behind (parsed). Calls of \<^verbatim>\<open>fs\<close>
  are taken to succeed. The last field is \<^verbatim>\<open>String.prototype.toLowerCase\<close> of the
  JavaScript engine, whose Unicode case mapping is not computed here.
\<close>

record env =
  existsSync :: "string \<Rightarrow> bool"
  conflictAction :: string
  newNameEntry :: string
  execSucceeds :: "string \<Rightarrow> bool"
  npmManifest :: json
  toLowerCase :: "string \<Rightarrow> string"

definition conflictChoices :: "string list" where
  "conflictChoices = [''Continue (overwrite)'', ''Choose a different name'', ''Cancel setup'']"

definition conflictMessage :: "string \<Rightarrow> string" where
  "conflictMessage name =
     ''Folder '' @ [CHR 0x27] @ name @ [CHR 0x27] @ '' already exists. What would you like to do?''"

text \<open>
  Lines 249 to 270: the folder conflict. The result is the events and the name the run goes
  on with, or \<^const>\<open>None\<close> after \<^verbatim>\<open>process.exit(1)\<close>.
\<close>

definition resolveConflict :: "env \<Rightarrow> string \<Rightarrow> event list \<times> string option" where
  "resolveConflict e name =
     (if existsSync e name then
        (if conflictAction e = ''Cancel setup'' then
           ([ExistsSync name, PromptList (conflictMessage name) conflictChoices], None)
         else if conflictAction e = ''Choose a different name'' then
           ([ExistsSync name, PromptList (conflictMessage name) conflictChoices,
             PromptInput (qmessage (renameQuestion name)) (qdefault (renameQuestion name))],
            Some (entered (renameQuestion name) (newNameEntry e)))
         else
           ([ExistsSync name, PromptList (conflictMessage name) conflictChoices], Some name))
      else ([ExistsSync name], Some name))"

definition folders :: "string list" where
  "folders =
     [''src/controllers'', ''src/routes'', ''src/services'', ''src/models'',
      ''src/middleware'', ''src/utils'', ''src/types'', ''src/config'']"

definition devDependenciesCommand :: string where
  "devDependenciesCommand =
     ''npm install --save-dev typescript ts-node ts-node-dev @types/node @types/express '' @
     ''@types/cors @types/cookie-parser @types/morgan @types/bcrypt '' @
     ''@types/swagger-ui-express @types/uuid''"

text \<open>Lines 272 to 316: from the project directory to the reading of the manifest.\<close>

definition setupSteps :: "answers \<Rightarrow> string \<Rightarrow> event list" where
  "setupSteps a name =
     [MkdirSync name, Chdir name,
      ExecSync ''npm init -y'',
      ExecSync (''npm install '' @ join '' '' (packages a))]
     @ (if isTS a then
          [ExecSync devDependenciesCommand,
           WriteFileSync ''tsconfig.json'' (Json (tsconfig (isESM a)))]
        else [ExecSync ''npm install --save-dev nodemon''])
     @ map MkdirSync folders
     @ [WriteFileSync ''.env'' (Text (envContent (port a))),
        ReadFileSync ''package.json'']"

text \<open>\<^verbatim>\<open>execSync\<close> throws when its command fails; nothing after it is run.\<close>

fun runSteps :: "env \<Rightarrow> event list \<Rightarrow> event list \<times> exitStatus" where
  "runSteps e [] = ([], Completed)"
| "runSteps e (ExecSync cmd # steps) =
     (if execSucceeds e cmd then
        (case runSteps e steps of (tr, st) \<Rightarrow> (ExecSync cmd # tr, st))
      else ([ExecSync cmd], Crashed (ExecFailed cmd)))"
| "runSteps e (step # steps) = (case runSteps e steps of (tr, st) \<Rightarrow> (step # tr, st))"

definition ext :: "answers \<Rightarrow> string" where
  "ext a = (if isTS a then ''ts'' else ''js'')"

definition esmExt :: "answers \<Rightarrow> string" where
  "esmExt a = (if isESM a then ''.js'' else [])"

definition loggerPath :: "answers \<Rightarrow> string" where
  "loggerPath a = join ''/'' [''src'', ''utils'', if isTS a then ''logger.ts'' else ''logger.js'']"

definition loggerContent :: "answers \<Rightarrow> string" where
  "loggerContent a =
     (if isTS a \<and> isESM a then LOGGER_TS_ESM
      else if isTS a \<and> \<not> isESM a then LOGGER_TS_CJS
      else if \<not> isTS a \<and> isESM a then LOGGER_JS_ESM
      else LOGGER_JS_CJS)"

text \<open>Lines 331 to 416: the generated source files, as (path, body), in the order written.\<close>

definition sourceArtifacts :: "answers \<Rightarrow> (string \<times> string) list" where
  "sourceArtifacts a =
     [(loggerPath a, loggerContent a),
      (''src/config/db.'' @ ext a, dbContent (isTS a) (isESM a)),
      (''src/config/swagger.'' @ ext a, swaggerContent (isTS a) (isESM a)),
      (''src/middleware/transactionIdMiddleware.'' @ ext a,
         transactionIdMiddlewareContent (isTS a) (isESM a)),
      (''src/middleware/loggerConsole.'' @ ext a, loggerConsoleContent (isTS a) (isESM a)),
      (''src/middleware/errorHandler.'' @ ext a, errorHandlerContent (isTS a) (isESM a)),
      (''src/routes/healthCheckRoute.'' @ ext a, healthCheckRouteContent (isTS a) (isESM a)),
      (''src/app.'' @ ext a, appFileContent (isTS a) (isESM a) (esmExt a)),
      (''src/server.'' @ ext a, serverFileContent (isTS a) (isESM a) (esmExt a) (port a))]"

text \<open>Lines 491 to 532: the deployment helpers the user ticked.\<close>

definition deploymentSteps :: "env \<Rightarrow> answers \<Rightarrow> string \<Rightarrow> event list" where
  "deploymentSteps e a name =
     (if ''dockerfile'' \<in> set (deploymentHelpers a)
        then [WriteFileSync ''Dockerfile'' (Text (dockerfileContent (isTS a) (port a)))]
        else [])
     @ (if ''compose'' \<in> set (deploymentHelpers a)
        then [WriteFileSync ''docker-compose.yml'' (Text (dockerComposeContent name (port a)))]
        else [])
     @ (if ''jenkins'' \<in> set (deploymentHelpers a)
        then [WriteFileSync ''Jenkinsfile'' (Text (jenkinsfileContent (toLowerCase e) (isTS a) name))]
        else [])
     @ (if ''github'' \<in> set (deploymentHelpers a)
        then [MkdirSync ''.github/workflows'',
              WriteFileSync ''.github/workflows/ci.yml'' (Text (ciContent (isTS a)))]
        else [])"

text \<open>Lines 272 to 532 for the name the conflict handling has settled.\<close>

definition scaffold :: "env \<Rightarrow> answers \<Rightarrow> string \<Rightarrow> event list \<times> exitStatus" where
  "scaffold e a name =
     (case runSteps e (setupSteps a name) of
        (tr, Completed) \<Rightarrow>
          (case updatePkgJson (isTS a) (isESM a) (npmManifest e) of
             Inl err \<Rightarrow> (tr, Crashed err)
           | Inr pkgJson \<Rightarrow>
               (tr @ [WriteFileSync ''package.json'' (Json pkgJson)]
                   @ map (\<lambda>(p, c). WriteFileSync p (Text c)) (sourceArtifacts a)
                   @ deploymentSteps e a name,
                Completed))
      | (tr, st) \<Rightarrow> (tr, st))"

definition run :: "env \<Rightarrow> answers \<Rightarrow> event list \<times> exitStatus" where
  "run e a =
     (case resolveConflict e (projectName a) of
        (evs, None) \<Rightarrow> (evs, Exited 1)
      | (evs, Some name) \<Rightarrow>
          (case scaffold e a name of (tr, st) \<Rightarrow> (evs @ tr, st)))"

section \<open>Observations on a run\<close>

text \<open>
  The notions the properties below are stated with. None of them is part of the
  generator: they read a trace or a generated text.
\<close>

text \<open>The bodies written to a path, in the order of the writes.\<close>

fun writesTo :: "string \<Rightarrow> event list \<Rightarrow> content list" where
  "writesTo p [] = []"
| "writesTo p (WriteFileSync q c # evs) = (if q = p then c # writesTo p evs else writesTo p evs)"
| "writesTo p (ev # evs) = writesTo p evs"

text \<open>The events that change the file system: directories, files, and the npm commands.\<close>

fun mutates :: "event \<Rightarrow> bool" where
  "mutates (MkdirSync p) = True"
| "mutates (WriteFileSync p c) = True"
| "mutates (ExecSync cmd) = True"
| "mutates ev = False"

fun isExistsSync :: "event \<Rightarrow> bool" where
  "isExistsSync (ExistsSync p) = True"
| "isExistsSync ev = False"

fun isPrompt :: "event \<Rightarrow> bool" where
  "isPrompt (PromptList m cs) = True"
| "isPrompt (PromptInput m d) = True"
| "isPrompt ev = False"

text \<open>The lines of a text, as \<^verbatim>\<open>split('\n')\<close> gives them.\<close>

fun splitLines :: "string \<Rightarrow> string list" where
  "splitLines [] = [[]]"
| "splitLines (c # cs) =
     (if c = CHR 0x0A then [] # splitLines cs
      else (case splitLines cs of l # ls \<Rightarrow> (c # l) # ls | [] \<Rightarrow> [[c]]))"

text \<open>
  The relative module specifiers of a source text: every quoted piece that begins with
  \<^verbatim>\<open>./\<close> or \<^verbatim>\<open>../\<close>, up to the next quote. This covers the specifier of every
  \<^verbatim>\<open>import ... from\<close> and every \<^verbatim>\<open>require(...)\<close> that names a file of the project.
\<close>

definition isQuote :: "char \<Rightarrow> bool" where
  "isQuote c = (c = CHR 0x27 \<or> c = CHR 0x22 \<or> c = CHR 0x60)"

fun relImports :: "string \<Rightarrow> string list" where
  "relImports [] = []"
| "relImports (c # cs) =
     (if isQuote c \<and> (startsWith cs ''./'' \<or> startsWith cs ''../'')
      then takeWhile (\<lambda>x. \<not> isQuote x) cs # relImports cs
      else relImports cs)"

text \<open>
  The file extension a specifier carries: the last dot of its last path segment and what
  follows, or nothing when that segment has no dot.
\<close>

definition importSuffix :: "string \<Rightarrow> string" where
  "importSuffix s =
     (let seg = rev (takeWhile (\<lambda>c. c \<noteq> CHR ''/'') (rev s))
      in if CHR ''.'' \<in> set seg
         then CHR ''.'' # rev (takeWhile (\<lambda>c. c \<noteq> CHR ''.'') (rev seg))
         else [])"

text \<open>
  The service names of a Compose descriptor: the keys one level below the top, that is
  the lines indented by exactly two spaces that end with a colon.
\<close>

definition composeServiceNames :: "string \<Rightarrow> string list" where
  "composeServiceNames c =
     map (\<lambda>l. butlast (drop 2 l))
       (filter (\<lambda>l. startsWith l ''  '' \<and> 2 < length l \<and> l ! 2 \<noteq> CHR '' ''
                     \<and> last l = CHR '':'')
          (splitLines c))"

text \<open>The decimal numeral of a natural number, without leading zeros.\<close>

fun decimal :: "nat \<Rightarrow> string" where
  "decimal n =
     (if n < 10 then [char_of (48 + n)]
      else decimal (n div 10) @ [char_of (48 + n mod 10)])"

declare decimal.simps [simp del]

section \<open>Concrete runs\<close>

text \<open>
  The configuration of the scenario of the specification, the manifest that
  \<^verbatim>\<open>npm init -y\<close> writes for a project of a given name, and a world in which every
  path exists and every command succeeds.
\<close>

definition demoAnswers :: answers where
  "demoAnswers =
     \<lparr>projectName = ''demo-app'', language = ''TypeScript'',
      moduleSystem = ''ES Modules (import/export)'', packages = [''express'', ''dotenv''],
      port = ''4000'', deploymentHelpers = [''dockerfile'']\<rparr>"

definition npmInitManifest :: "string \<Rightarrow> json" where
  "npmInitManifest name =
     JObj [(''name'', JStr name), (''version'', JStr ''1.0.0''), (''description'', JStr []),
           (''main'', JStr ''index.js''),
           (''scripts'', JObj [(''test'', JStr ''echo \"Error: no test specified\" && exit 1'')]),
           (''keywords'', JArr []), (''author'', JStr []), (''license'', JStr ''ISC'')]"

definition occupiedEnv :: "string \<Rightarrow> string \<Rightarrow> env" where
  "occupiedEnv action entry =
     \<lparr>existsSync = (\<lambda>p. True), conflictAction = action, newNameEntry = entry,
      execSucceeds = (\<lambda>cmd. True), npmManifest = npmInitManifest ''demo-app'',
      toLowerCase = asciiLowerCase\<rparr>"

definition freshEnv :: "json \<Rightarrow> env" where
  "freshEnv manifest =
     \<lparr>existsSync = (\<lambda>p. False), conflictAction = [], newNameEntry = [],
      execSucceeds = (\<lambda>cmd. True), npmManifest = manifest,
      toLowerCase = asciiLowerCase\<rparr>"

definition composeAnswers :: answers where
  "composeAnswers = demoAnswers\<lparr>deploymentHelpers := [''dockerfile'', ''compose'']\<rparr>"

text \<open>A port text that the validator of the port question lets through: it parses to 80.\<close>

definition importingPort :: string where
  \<open>importingPort = ''80;import x from './y.ts'' @ [CHR 0x27]\<close>

section \<open>Facts about the run\<close>

lemma runSteps_subset: "x \<in> set (fst (runSteps e steps)) \<Longrightarrow> x \<in> set steps"
  by (induction e steps rule: runSteps.induct) (auto split: prod.splits if_splits)

lemma runSteps_completed: "runSteps e steps = (tr, Completed) \<Longrightarrow> tr = steps"
  by (induction e steps arbitrary: tr rule: runSteps.induct)
     (auto split: prod.splits if_splits)

lemma runSteps_all_succeed:
  "(\<And>cmd. execSucceeds e cmd) \<Longrightarrow> runSteps e steps = (steps, Completed)"
  by (induction e steps rule: runSteps.induct) auto

lemma setupSteps_head:
  "\<exists>rest. fst (runSteps e (setupSteps a name)) = MkdirSync name # Chdir name # rest"
  by (auto simp: setupSteps_def split: prod.splits)

lemma scaffold_head:
  "\<exists>rest. fst (scaffold e a name) = MkdirSync name # Chdir name # rest"
proof -
  obtain rest where r: "fst (runSteps e (setupSteps a name)) = MkdirSync name # Chdir name # rest"
    using setupSteps_head by blast
  obtain tr st where ts: "runSteps e (setupSteps a name) = (tr, st)"
    by (cases "runSteps e (setupSteps a name)")
  with r have "tr = MkdirSync name # Chdir name # rest" by simp
  with ts show ?thesis
    by (cases st; cases "updatePkgJson (isTS a) (isESM a) (npmManifest e)")
       (simp_all add: scaffold_def)
qed

lemma setupSteps_no_question:
  "x \<in> set (setupSteps a name) \<Longrightarrow> \<not> isExistsSync x \<and> \<not> isPrompt x"
  by (auto simp: setupSteps_def folders_def split: if_splits)

lemma deploymentSteps_no_question:
  "x \<in> set (deploymentSteps e a name) \<Longrightarrow> \<not> isExistsSync x \<and> \<not> isPrompt x"
  by (auto simp: deploymentSteps_def split: if_splits)

lemma scaffold_no_question:
  assumes "x \<in> set (fst (scaffold e a name))"
  shows "\<not> isExistsSync x \<and> \<not> isPrompt x"
proof -
  obtain tr st where ts: "runSteps e (setupSteps a name) = (tr, st)"
    by (cases "runSteps e (setupSteps a name)")
  have tr: "\<And>y. y \<in> set tr \<Longrightarrow> \<not> isExistsSync y \<and> \<not> isPrompt y"
    using runSteps_subset [of _ e "setupSteps a name"] setupSteps_no_question ts
    by fastforce
  from assms ts show ?thesis
    by (cases st; cases "updatePkgJson (isTS a) (isESM a) (npmManifest e)")
       (auto simp: scaffold_def dest: tr deploymentSteps_no_question)
qed

lemma run_trace:
  "fst (run e a) =
     fst (resolveConflict e (projectName a)) @
     (case snd (resolveConflict e (projectName a)) of
        None \<Rightarrow> [] | Some name \<Rightarrow> fst (scaffold e a name))"
  by (simp add: run_def split: prod.splits option.splits)

lemma scaffold_quiet:
  "filter isExistsSync (fst (scaffold e a name)) = []"
  "filter isPrompt (fst (scaffold e a name)) = []"
  using scaffold_no_question [of _ e a name] by (simp_all add: filter_empty_conv)


section \<open>Decimal numerals and parseInt\<close>

lemma digit_char: "d < 10 \<Longrightarrow> (of_char (char_of (48 + d :: nat)) :: nat) = 48 + d"
  by simp

lemma decimal_digits: "c \<in> set (decimal n) \<Longrightarrow> isDigit c"
proof (induction n rule: decimal.induct)
  case (1 n)
  show ?case
  proof (cases "n < 10")
    case True
    with "1.prems" show ?thesis
      by (simp add: decimal.simps [of n] isDigit_def)
  next
    case False
    have "n mod 10 < 10" by simp
    then have "isDigit (char_of (48 + n mod 10))"
      unfolding isDigit_def by (simp only: digit_char) simp
    with False "1.prems" "1.IH" show ?thesis
      by (auto simp: decimal.simps [of n])
  qed
qed

lemma decimal_nonempty: "decimal n \<noteq> []"
  by (simp add: decimal.simps [of n])

lemma digitsValue_snoc:
  "digitsValue (ds @ [d]) = 10 * digitsValue ds + int ((of_char d :: nat) - 48)"
  by (simp add: digitsValue_def)

lemma digitsValue_decimal: "digitsValue (decimal n) = int n"
proof (induction n rule: decimal.induct)
  case (1 n)
  show ?case
  proof (cases "n < 10")
    case True
    then show ?thesis
      by (simp add: decimal.simps [of n] digitsValue_def)
  next
    case False
    have "n mod 10 < 10" by simp
    then have d: "(of_char (char_of (48 + n mod 10)) :: nat) = 48 + n mod 10"
      by (rule digit_char)
    from False "1.IH" have "digitsValue (decimal n) = 10 * int (n div 10) + int (n mod 10)"
      by (simp add: decimal.simps [of n] digitsValue_snoc d del: of_char_of)
    then show ?thesis by presburger
  qed
qed

lemma whitespace_heads: "list_all (\<lambda>w. \<not> isDigit (hd w)) jsWhitespace"
  by code_simp

lemma trimStart_digit:
  assumes "isDigit c"
  shows "trimStart (c # cs) = c # cs"
proof -
  have "\<not> (w \<noteq> [] \<and> prefix w (c # cs))" if "w \<in> set jsWhitespace" for w
  proof
    assume a: "w \<noteq> [] \<and> prefix w (c # cs)"
    then obtain v where "w = c # v"
      by (cases w) auto
    with assms have "isDigit (hd w)" by simp
    with whitespace_heads that show False by (simp add: list_all_iff)
  qed
  then have "find (\<lambda>w. w \<noteq> [] \<and> prefix w (c # cs)) jsWhitespace = None"
    by (simp add: find_None_iff)
  then show ?thesis
    by (simp add: trimStart_def stripLeading.simps [of _ "c # cs"])
qed

lemma parseInt10_decimal: "parseInt10 (decimal n) = Some (int n)"
proof -
  obtain c cs where s: "decimal n = c # cs"
    using decimal_nonempty [of n] by (cases "decimal n") auto
  have dc: "isDigit c"
    using decimal_digits [of c n] s by simp
  then have sign: "c \<noteq> CHR ''-''" "c \<noteq> CHR ''+''"
    by (auto simp: isDigit_def)
  have tw: "takeWhile isDigit (c # cs) = c # cs"
    using decimal_digits [of _ n] s by (simp add: takeWhile_eq_all_conv)
  have "parseInt10 (c # cs) = Some (digitsValue (c # cs))"
    using sign tw by (simp add: parseInt10_def trimStart_digit [OF dc] startsWith_def Let_def)
  then show ?thesis
    using digitsValue_decimal [of n] s by simp
qed

lemma portValidate_decimal: "(portValidate (decimal n) = Valid) = (0 < n \<and> n < 65536)"
  by (simp add: portValidate_def parseInt10_decimal)

section \<open>The port\<close>

text \<open>
  C7. The validator of the port question accepts exactly the entries whose parsed integer
  is greater than 0 and less than 65536. The entries 1 and 65535 are taken, 0 and 65536 are
  asked again; more generally the decimal numeral of a natural number is taken exactly when
  the number lies strictly between 0 and 65536.
\<close>

theorem port_range:
  "(portValidate input = Valid) = (\<exists>n. parseInt10 input = Some n \<and> 0 < n \<and> n < 65536)
   \<and> accepts portQuestion ''1'' \<and> accepts portQuestion ''65535''
   \<and> \<not> accepts portQuestion ''0'' \<and> \<not> accepts portQuestion ''65536''
   \<and> (portValidate (decimal n) = Valid) = (0 < n \<and> n < 65536)"
proof -
  have g: "(portValidate input = Valid) = (\<exists>n. parseInt10 input = Some n \<and> 0 < n \<and> n < 65536)"
    by (auto simp: portValidate_def split: option.splits)
  have b1: "accepts portQuestion ''1''" by code_simp
  have b2: "accepts portQuestion ''65535''" by code_simp
  have b3: "\<not> accepts portQuestion ''0''" by code_simp
  have b4: "\<not> accepts portQuestion ''65536''" by code_simp
  have d: "(portValidate (decimal n) = Valid) = (0 < n \<and> n < 65536)"
    by (rule portValidate_decimal)
  from g b1 b2 b3 b4 d show ?thesis by blast
qed

section \<open>The folder conflict\<close>

text \<open>
  C6. When the project directory exists and the user picks \<^verbatim>\<open>Cancel setup\<close>, the run
  consists of the existence test and the one prompt, and ends with exit status 1: no
  directory is made, no file written and no command run.
\<close>

theorem cancel_exits_before_mutation:
  assumes "existsSync e (projectName a)" and "conflictAction e = ''Cancel setup''"
  shows "run e a =
           ([ExistsSync (projectName a),
             PromptList (conflictMessage (projectName a)) conflictChoices], Exited 1)
         \<and> filter mutates (fst (run e a)) = []
         \<and> snd (run e a) \<noteq> Completed \<and> snd (run e a) \<noteq> Exited 0"
  using assms by (simp add: run_def resolveConflict_def)

theorem cancel_exits_before_mutation_witness:
  "existsSync (occupiedEnv ''Cancel setup'' []) (projectName demoAnswers)
   \<and> conflictAction (occupiedEnv ''Cancel setup'' []) = ''Cancel setup''
   \<and> run (occupiedEnv ''Cancel setup'' []) demoAnswers =
       ([ExistsSync ''demo-app'',
         PromptList (conflictMessage ''demo-app'') conflictChoices], Exited 1)"
  using cancel_exits_before_mutation [of "occupiedEnv ''Cancel setup'' []" demoAnswers]
  by (simp add: occupiedEnv_def demoAnswers_def)

text \<open>
  C10. A run tests for an existing directory exactly once, with the name first entered.
  When that name exists, the user asks for a different name and the name then typed exists
  too, the only prompts are the two of the conflict, and the run goes straight on to make
  and enter the directory of the new name.
\<close>

theorem conflict_checked_once:
  "filter isExistsSync (fst (run e a)) = [ExistsSync (projectName a)]
   \<and> (existsSync e (projectName a) \<and> conflictAction e = ''Choose a different name''
        \<and> existsSync e (entered (renameQuestion (projectName a)) (newNameEntry e))
      \<longrightarrow> filter isPrompt (fst (run e a)) =
            [PromptList (conflictMessage (projectName a)) conflictChoices,
             PromptInput ''Enter a new project name:'' (projectName a @ ''-new'')]
          \<and> take 5 (fst (run e a)) =
            [ExistsSync (projectName a),
             PromptList (conflictMessage (projectName a)) conflictChoices,
             PromptInput ''Enter a new project name:'' (projectName a @ ''-new''),
             MkdirSync (entered (renameQuestion (projectName a)) (newNameEntry e)),
             Chdir (entered (renameQuestion (projectName a)) (newNameEntry e))])"
proof -
  let ?tail = "case snd (resolveConflict e (projectName a)) of
                 None \<Rightarrow> [] | Some name \<Rightarrow> fst (scaffold e a name)"
  have tr: "fst (run e a) = fst (resolveConflict e (projectName a)) @ ?tail"
    by (rule run_trace)
  have tail: "filter isExistsSync ?tail = [] \<and> filter isPrompt ?tail = []"
    using scaffold_quiet by (simp split: option.splits)
  have once: "filter isExistsSync (fst (run e a)) = [ExistsSync (projectName a)]"
    using tail by (simp add: tr resolveConflict_def)
  have renamed: "filter isPrompt (fst (run e a)) =
            [PromptList (conflictMessage (projectName a)) conflictChoices,
             PromptInput ''Enter a new project name:'' (projectName a @ ''-new'')]
          \<and> take 5 (fst (run e a)) =
            [ExistsSync (projectName a),
             PromptList (conflictMessage (projectName a)) conflictChoices,
             PromptInput ''Enter a new project name:'' (projectName a @ ''-new''),
             MkdirSync (entered (renameQuestion (projectName a)) (newNameEntry e)),
             Chdir (entered (renameQuestion (projectName a)) (newNameEntry e))]"
    if "existsSync e (projectName a)" and "conflictAction e = ''Choose a different name''"
  proof -
    let ?n = "entered (renameQuestion (projectName a)) (newNameEntry e)"
    obtain rest where r: "fst (scaffold e a ?n) = MkdirSync ?n # Chdir ?n # rest"
      using scaffold_head by blast
    have q: "filter isPrompt (fst (scaffold e a ?n)) = []"
      by (simp add: scaffold_quiet)
    have rc: "resolveConflict e (projectName a) =
        ([ExistsSync (projectName a),
          PromptList (conflictMessage (projectName a)) conflictChoices,
          PromptInput ''Enter a new project name:'' (projectName a @ ''-new'')], Some ?n)"
      using that by (simp add: resolveConflict_def renameQuestion_def)
    show ?thesis
      using q by (simp add: tr rc r)
  qed
  from once renamed show ?thesis by blast
qed

theorem conflict_checked_once_witness:
  "existsSync (occupiedEnv ''Choose a different name'' ''other-app'') (projectName demoAnswers)
   \<and> existsSync (occupiedEnv ''Choose a different name'' ''other-app'') ''other-app''
   \<and> filter isExistsSync (fst (run (occupiedEnv ''Choose a different name'' ''other-app'') demoAnswers))
       = [ExistsSync ''demo-app'']
   \<and> take 5 (fst (run (occupiedEnv ''Choose a different name'' ''other-app'') demoAnswers)) =
       [ExistsSync ''demo-app'',
        PromptList (conflictMessage ''demo-app'') conflictChoices,
        PromptInput ''Enter a new project name:'' ''demo-app-new'',
        MkdirSync ''other-app'', Chdir ''other-app'']"
  using conflict_checked_once [of "occupiedEnv ''Choose a different name'' ''other-app''" demoAnswers]
  by (simp add: occupiedEnv_def demoAnswers_def entered_def renameQuestion_def)

section \<open>The files of a completed run\<close>

lemma writesTo_append: "writesTo p (xs @ ys) = writesTo p xs @ writesTo p ys"
  by (induction p xs rule: writesTo.induct) auto

lemma writesTo_artifacts:
  "writesTo p (map (\<lambda>(q, c). WriteFileSync q (Text c)) arts) =
     map (\<lambda>(q, c). Text c) (filter (\<lambda>(q, c). q = p) arts)"
  by (induction arts) auto

lemma resolveConflict_no_write: "writesTo p (fst (resolveConflict e n)) = []"
  by (simp add: resolveConflict_def)

lemma run_completed:
  assumes "snd (run e a) = Completed"
  shows "\<exists>name pkgJson.
           snd (resolveConflict e (projectName a)) = Some name
         \<and> updatePkgJson (isTS a) (isESM a) (npmManifest e) = Inr pkgJson
         \<and> fst (run e a) =
             fst (resolveConflict e (projectName a)) @ setupSteps a name
             @ [WriteFileSync ''package.json'' (Json pkgJson)]
             @ map (\<lambda>(p, c). WriteFileSync p (Text c)) (sourceArtifacts a)
             @ deploymentSteps e a name"
proof -
  obtain evs r where rc: "resolveConflict e (projectName a) = (evs, r)"
    by (cases "resolveConflict e (projectName a)")
  from assms rc obtain name where n: "r = Some name"
    by (cases r) (auto simp: run_def)
  obtain tr st where ts: "runSteps e (setupSteps a name) = (tr, st)"
    by (cases "runSteps e (setupSteps a name)")
  from assms rc n ts have st: "st = Completed"
    by (cases st) (auto simp: run_def scaffold_def split: prod.splits sum.splits)
  with ts have tr: "tr = setupSteps a name"
    using runSteps_completed by blast
  from assms rc n ts st obtain pkgJson
    where u: "updatePkgJson (isTS a) (isESM a) (npmManifest e) = Inr pkgJson"
    by (cases "updatePkgJson (isTS a) (isESM a) (npmManifest e)")
       (auto simp: run_def scaffold_def)
  from rc n ts st tr u show ?thesis
    by (simp add: run_def scaffold_def)
qed

lemma core_setup_writes:
  "p \<noteq> ''tsconfig.json'' \<Longrightarrow> p \<noteq> ''.env'' \<Longrightarrow> writesTo p (setupSteps a name) = []"
  by (simp add: setupSteps_def folders_def writesTo_append)

lemma source_paths:
  "(q, c) \<in> set (sourceArtifacts a) \<Longrightarrow> startsWith q ''src/''"
  by (auto simp: sourceArtifacts_def startsWith_def loggerPath_def)

lemma source_writes:
  "\<not> startsWith p ''src/'' \<Longrightarrow>
     writesTo p (map (\<lambda>(q, c). WriteFileSync q (Text c)) (sourceArtifacts a)) = []"
  using source_paths [of p _ a] by (auto simp: writesTo_artifacts filter_empty_conv)

lemma deployment_writes:
  "writesTo ''Dockerfile'' (deploymentSteps e a name) =
     (if ''dockerfile'' \<in> set (deploymentHelpers a)
      then [Text (dockerfileContent (isTS a) (port a))] else [])"
  "writesTo ''docker-compose.yml'' (deploymentSteps e a name) =
     (if ''compose'' \<in> set (deploymentHelpers a)
      then [Text (dockerComposeContent name (port a))] else [])"
  "writesTo ''Jenkinsfile'' (deploymentSteps e a name) =
     (if ''jenkins'' \<in> set (deploymentHelpers a)
      then [Text (jenkinsfileContent (toLowerCase e) (isTS a) name)] else [])"
  "writesTo ''.github/workflows/ci.yml'' (deploymentSteps e a name) =
     (if ''github'' \<in> set (deploymentHelpers a)
      then [Text (ciContent (isTS a))] else [])"
  by (simp_all add: deploymentSteps_def writesTo_append)

lemma run_deployment_writes:
  assumes "snd (run e a) = Completed" and "snd (resolveConflict e (projectName a)) = Some name"
    and "p \<in> {''Dockerfile'', ''docker-compose.yml'', ''Jenkinsfile'', ''.github/workflows/ci.yml''}"
  shows "writesTo p (fst (run e a)) = writesTo p (deploymentSteps e a name)"
proof -
  from run_completed [OF assms(1)] assms(2) obtain pkgJson where
    tr: "fst (run e a) =
           fst (resolveConflict e (projectName a)) @ setupSteps a name
           @ [WriteFileSync ''package.json'' (Json pkgJson)]
           @ map (\<lambda>(p, c). WriteFileSync p (Text c)) (sourceArtifacts a)
           @ deploymentSteps e a name"
    by auto
  from assms(3) have p: "p \<noteq> ''tsconfig.json''" "p \<noteq> ''.env''" "p \<noteq> ''package.json''"
    "\<not> startsWith p ''src/''"
    by (auto simp: startsWith_def)
  show ?thesis
    using p by (simp add: tr writesTo_append resolveConflict_no_write core_setup_writes source_writes)
qed

lemma run_without_helpers:
  assumes "snd (run e a) = Completed"
  shows "snd (run e (a\<lparr>deploymentHelpers := []\<rparr>)) = Completed
       \<and> (\<exists>name. snd (resolveConflict e (projectName a)) = Some name
            \<and> fst (run e a) = fst (run e (a\<lparr>deploymentHelpers := []\<rparr>)) @ deploymentSteps e a name)"
proof -
  let ?b = "a\<lparr>deploymentHelpers := []\<rparr>"
  have same: "setupSteps ?b = setupSteps a" "sourceArtifacts ?b = sourceArtifacts a"
    "isTS ?b = isTS a" "isESM ?b = isESM a" "deploymentSteps e ?b n = []" for n
    by (simp_all add: setupSteps_def sourceArtifacts_def isTS_def isESM_def deploymentSteps_def
          fun_eq_iff loggerPath_def loggerContent_def ext_def esmExt_def)
  from run_completed [OF assms] obtain name pkgJson where
    n: "snd (resolveConflict e (projectName a)) = Some name"
    and u: "updatePkgJson (isTS a) (isESM a) (npmManifest e) = Inr pkgJson"
    and tr: "fst (run e a) =
           fst (resolveConflict e (projectName a)) @ setupSteps a name
           @ [WriteFileSync ''package.json'' (Json pkgJson)]
           @ map (\<lambda>(p, c). WriteFileSync p (Text c)) (sourceArtifacts a)
           @ deploymentSteps e a name"
    by auto
  obtain tr' st where ts: "runSteps e (setupSteps a name) = (tr', st)"
    by (cases "runSteps e (setupSteps a name)")
  from assms n ts have st: "st = Completed"
    by (cases st) (auto simp: run_def scaffold_def split: prod.splits sum.splits option.splits)
  with ts have tr': "tr' = setupSteps a name"
    using runSteps_completed by blast
  have b: "run e ?b =
     (fst (resolveConflict e (projectName a)) @ setupSteps a name
           @ [WriteFileSync ''package.json'' (Json pkgJson)]
           @ map (\<lambda>(p, c). WriteFileSync p (Text c)) (sourceArtifacts a), Completed)"
    using n ts st tr' u
    by (cases "resolveConflict e (projectName a)") (simp add: run_def scaffold_def same)
  from b tr n show ?thesis by simp
qed

text \<open>
  C8. In a run that reaches its end, each deployment file is written if and only if its
  helper is ticked: \<^verbatim>\<open>Dockerfile\<close> for \<^verbatim>\<open>dockerfile\<close>, \<^verbatim>\<open>docker-compose.yml\<close> for
  \<^verbatim>\<open>compose\<close>, \<^verbatim>\<open>Jenkinsfile\<close> for \<^verbatim>\<open>jenkins\<close> and the workflow
  \<^verbatim>\<open>.github/workflows/ci.yml\<close> for \<^verbatim>\<open>github\<close>. The same answers with no helper
  ticked also reach the end, write none of the four, and their trace is the trace of the
  run up to its deployment steps: the core files do not depend on the helpers.
\<close>

theorem deployment_iff_selected:
  assumes "snd (run e a) = Completed"
  shows "(writesTo ''Dockerfile'' (fst (run e a)) \<noteq> []) = (''dockerfile'' \<in> set (deploymentHelpers a))
       \<and> (writesTo ''docker-compose.yml'' (fst (run e a)) \<noteq> []) = (''compose'' \<in> set (deploymentHelpers a))
       \<and> (writesTo ''Jenkinsfile'' (fst (run e a)) \<noteq> []) = (''jenkins'' \<in> set (deploymentHelpers a))
       \<and> (writesTo ''.github/workflows/ci.yml'' (fst (run e a)) \<noteq> []) = (''github'' \<in> set (deploymentHelpers a))
       \<and> snd (run e (a\<lparr>deploymentHelpers := []\<rparr>)) = Completed
       \<and> writesTo ''Dockerfile'' (fst (run e (a\<lparr>deploymentHelpers := []\<rparr>))) = []
       \<and> writesTo ''docker-compose.yml'' (fst (run e (a\<lparr>deploymentHelpers := []\<rparr>))) = []
       \<and> writesTo ''Jenkinsfile'' (fst (run e (a\<lparr>deploymentHelpers := []\<rparr>))) = []
       \<and> writesTo ''.github/workflows/ci.yml'' (fst (run e (a\<lparr>deploymentHelpers := []\<rparr>))) = []
       \<and> (\<exists>name. snd (resolveConflict e (projectName a)) = Some name
            \<and> fst (run e a) = fst (run e (a\<lparr>deploymentHelpers := []\<rparr>)) @ deploymentSteps e a name)"
proof -
  let ?b = "a\<lparr>deploymentHelpers := []\<rparr>"
  from run_without_helpers [OF assms] obtain name where
    b: "snd (run e ?b) = Completed"
    and n: "snd (resolveConflict e (projectName a)) = Some name"
    and tr: "fst (run e a) = fst (run e ?b) @ deploymentSteps e a name"
    by auto
  have nb: "snd (resolveConflict e (projectName ?b)) = Some name"
    using n by simp
  have w: "writesTo p (fst (run e a)) = writesTo p (deploymentSteps e a name)"
    if "p \<in> {''Dockerfile'', ''docker-compose.yml'', ''Jenkinsfile'', ''.github/workflows/ci.yml''}" for p
    using run_deployment_writes [OF assms n that] .
  have wb: "writesTo p (fst (run e ?b)) = []"
    if "p \<in> {''Dockerfile'', ''docker-compose.yml'', ''Jenkinsfile'', ''.github/workflows/ci.yml''}" for p
    using run_deployment_writes [OF b nb that] that
    by (auto simp: deployment_writes)
  have sel:
    "(writesTo ''Dockerfile'' (fst (run e a)) \<noteq> []) = (''dockerfile'' \<in> set (deploymentHelpers a))"
    "(writesTo ''docker-compose.yml'' (fst (run e a)) \<noteq> []) = (''compose'' \<in> set (deploymentHelpers a))"
    "(writesTo ''Jenkinsfile'' (fst (run e a)) \<noteq> []) = (''jenkins'' \<in> set (deploymentHelpers a))"
    "(writesTo ''.github/workflows/ci.yml'' (fst (run e a)) \<noteq> []) = (''github'' \<in> set (deploymentHelpers a))"
    by (simp_all add: w deployment_writes)
  have none:
    "writesTo ''Dockerfile'' (fst (run e ?b)) = []"
    "writesTo ''docker-compose.yml'' (fst (run e ?b)) = []"
    "writesTo ''Jenkinsfile'' (fst (run e ?b)) = []"
    "writesTo ''.github/workflows/ci.yml'' (fst (run e ?b)) = []"
    by (simp_all add: wb)
  have core: "\<exists>name. snd (resolveConflict e (projectName a)) = Some name
            \<and> fst (run e a) = fst (run e ?b) @ deploymentSteps e a name"
    using n tr by blast
  from sel none core b show ?thesis by blast
qed

theorem deployment_iff_selected_witness:
  "snd (run (freshEnv (npmInitManifest ''demo-app'')) demoAnswers) = Completed
   \<and> writesTo ''Dockerfile'' (fst (run (freshEnv (npmInitManifest ''demo-app'')) demoAnswers)) \<noteq> []
   \<and> writesTo ''docker-compose.yml'' (fst (run (freshEnv (npmInitManifest ''demo-app'')) demoAnswers)) = []"
proof -
  have c: "snd (run (freshEnv (npmInitManifest ''demo-app'')) demoAnswers) = Completed"
    by code_simp
  have h: "deploymentHelpers demoAnswers = [''dockerfile'']"
    by (simp add: demoAnswers_def)
  show ?thesis
    using deployment_iff_selected [OF c] c by (simp add: h)
qed

section \<open>The scenario of the specification\<close>

lemma map_of_update_other:
  "k \<noteq> k' \<Longrightarrow> map_of (AList.update k v kvs) k' = map_of kvs k'"
  by (simp add: update_conv')

lemma map_of_update_same: "map_of (AList.update k v kvs) k = Some v"
  by (simp add: update_conv')

lemma setScript_object:
  assumes "map_of kvs ''scripts'' = Some (JObj ss)"
  shows "setScript (JObj kvs) k v =
           Inr (JObj (AList.update ''scripts'' (JObj (AList.update k (JStr v) ss)) kvs))"
  using assms by (simp add: setScript_def)

lemma updatePkgJson_ts_esm:
  assumes "getProp m ''scripts'' = Inr (Some (JObj ss))"
  shows "\<exists>pj sc. updatePkgJson True True m = Inr pj
         \<and> getProp pj ''type'' = Inr (Some (JStr ''module''))
         \<and> getProp pj ''scripts'' = Inr (Some sc)
         \<and> getProp sc ''dev'' = Inr (Some (JStr ''node --loader ts-node/esm src/server.ts''))"
proof -
  from assms obtain kvs where m: "m = JObj kvs" and s: "map_of kvs ''scripts'' = Some (JObj ss)"
    by (cases m) auto
  let ?k1 = "AList.update ''type'' (JStr ''module'') kvs"
  let ?s1 = "AList.update ''start'' (JStr ''node dist/server.js'') ss"
  let ?k2 = "AList.update ''scripts'' (JObj ?s1) ?k1"
  let ?s2 = "AList.update ''dev'' (JStr ''node --loader ts-node/esm src/server.ts'') ?s1"
  let ?k3 = "AList.update ''scripts'' (JObj ?s2) ?k2"
  have s1: "map_of ?k1 ''scripts'' = Some (JObj ss)"
    using s by (simp add: map_of_update_other)
  have s2: "map_of ?k2 ''scripts'' = Some (JObj ?s1)"
    by (rule map_of_update_same)
  have u: "updatePkgJson True True m = Inr (JObj ?k3)"
    by (simp add: updatePkgJson_def m setScript_object [OF s1] setScript_object [OF s2])
  have t: "map_of ?k3 ''type'' = Some (JStr ''module'')"
    by (simp add: map_of_update_other map_of_update_same)
  have sc: "map_of ?k3 ''scripts'' = Some (JObj ?s2)"
    by (rule map_of_update_same)
  have d: "map_of ?s2 ''dev'' = Some (JStr ''node --loader ts-node/esm src/server.ts'')"
    by (rule map_of_update_same)
  from u t sc d show ?thesis by simp
qed

lemma dockerfile_demo_lines:
  "''RUN npm run build'' \<in> set (splitLines (dockerfileContent True ''4000''))
   \<and> ''EXPOSE 4000'' \<in> set (splitLines (dockerfileContent True ''4000''))"
  by code_simp

lemma tsconfig_module:
  "\<exists>co. getProp (tsconfig True) ''compilerOptions'' = Inr (Some co)
        \<and> getProp co ''module'' = Inr (Some (JStr ''NodeNext''))"
  by (simp add: tsconfig_def)

lemma demo_flags: "isTS demoAnswers" "isESM demoAnswers" "port demoAnswers = ''4000''"
  "deploymentHelpers demoAnswers = [''dockerfile'']"
  by (simp_all add: demoAnswers_def isTS_def isESM_def startsWith_def)

text \<open>
  C2. For the configuration \<^verbatim>\<open>demo-app\<close>, TypeScript, ES modules, port 4000 and the
  helper \<^verbatim>\<open>dockerfile\<close>, a run that reaches its end on a manifest whose
  \<^verbatim>\<open>scripts\<close> is an object (as \<^verbatim>\<open>npm init -y\<close> writes it) writes
  \<^verbatim>\<open>package.json\<close> once, with \<^verbatim>\<open>type\<close> equal to \<^verbatim>\<open>module\<close> and
  \<^verbatim>\<open>scripts.dev\<close> equal to \<^verbatim>\<open>node --loader ts-node/esm src/server.ts\<close>; it writes
  \<^verbatim>\<open>tsconfig.json\<close> with \<^verbatim>\<open>compilerOptions.module\<close> equal to \<^verbatim>\<open>NodeNext\<close>; and it
  writes exactly one \<^verbatim>\<open>Dockerfile\<close>, which has the line \<^verbatim>\<open>RUN npm run build\<close> and the
  line \<^verbatim>\<open>EXPOSE 4000\<close>.
\<close>

theorem demo_app_scenario:
  assumes "snd (run e demoAnswers) = Completed"
    and "getProp (npmManifest e) ''scripts'' = Inr (Some (JObj ss))"
  shows "(\<exists>pj sc. writesTo ''package.json'' (fst (run e demoAnswers)) = [Json pj]
            \<and> getProp pj ''type'' = Inr (Some (JStr ''module''))
            \<and> getProp pj ''scripts'' = Inr (Some sc)
            \<and> getProp sc ''dev'' = Inr (Some (JStr ''node --loader ts-node/esm src/server.ts'')))
       \<and> (\<exists>co. writesTo ''tsconfig.json'' (fst (run e demoAnswers)) = [Json (tsconfig True)]
            \<and> getProp (tsconfig True) ''compilerOptions'' = Inr (Some co)
            \<and> getProp co ''module'' = Inr (Some (JStr ''NodeNext'')))
       \<and> writesTo ''Dockerfile'' (fst (run e demoAnswers)) = [Text (dockerfileContent True ''4000'')]
       \<and> ''RUN npm run build'' \<in> set (splitLines (dockerfileContent True ''4000''))
       \<and> ''EXPOSE 4000'' \<in> set (splitLines (dockerfileContent True ''4000''))"
proof -
  from run_completed [OF assms(1)] obtain name pkgJson where
    n: "snd (resolveConflict e (projectName demoAnswers)) = Some name"
    and u: "updatePkgJson True True (npmManifest e) = Inr pkgJson"
    and tr: "fst (run e demoAnswers) =
           fst (resolveConflict e (projectName demoAnswers)) @ setupSteps demoAnswers name
           @ [WriteFileSync ''package.json'' (Json pkgJson)]
           @ map (\<lambda>(p, c). WriteFileSync p (Text c)) (sourceArtifacts demoAnswers)
           @ deploymentSteps e demoAnswers name"
    by (auto simp: demo_flags)
  have src: "writesTo p (map (\<lambda>(q, c). WriteFileSync q (Text c)) (sourceArtifacts demoAnswers)) = []"
    if "\<not> startsWith p ''src/''" for p
    using that by (rule source_writes)
  have dep: "writesTo ''package.json'' (deploymentSteps e demoAnswers name) = []"
    "writesTo ''tsconfig.json'' (deploymentSteps e demoAnswers name) = []"
    by (simp_all add: deploymentSteps_def demo_flags)
  have stp: "writesTo ''package.json'' (setupSteps demoAnswers name) = []"
    "writesTo ''tsconfig.json'' (setupSteps demoAnswers name) = [Json (tsconfig True)]"
    by (simp_all add: setupSteps_def folders_def demo_flags writesTo_append)
  have pk: "writesTo ''package.json'' (fst (run e demoAnswers)) = [Json pkgJson]"
    by (simp add: tr writesTo_append resolveConflict_no_write stp dep src startsWith_def)
  have ts: "writesTo ''tsconfig.json'' (fst (run e demoAnswers)) = [Json (tsconfig True)]"
    by (simp add: tr writesTo_append resolveConflict_no_write stp dep src startsWith_def)
  have dk: "writesTo ''Dockerfile'' (fst (run e demoAnswers)) = [Text (dockerfileContent True ''4000'')]"
    using run_deployment_writes [OF assms(1) n, of "''Dockerfile''"]
    by (simp add: deployment_writes demo_flags)
  from updatePkgJson_ts_esm [OF assms(2)] u pk
  have p1: "\<exists>pj sc. writesTo ''package.json'' (fst (run e demoAnswers)) = [Json pj]
            \<and> getProp pj ''type'' = Inr (Some (JStr ''module''))
            \<and> getProp pj ''scripts'' = Inr (Some sc)
            \<and> getProp sc ''dev'' = Inr (Some (JStr ''node --loader ts-node/esm src/server.ts''))"
    by auto
  from p1 ts tsconfig_module dk dockerfile_demo_lines show ?thesis by blast
qed

theorem demo_app_scenario_witness:
  "snd (run (freshEnv (npmInitManifest ''demo-app'')) demoAnswers) = Completed
   \<and> writesTo ''Dockerfile'' (fst (run (freshEnv (npmInitManifest ''demo-app'')) demoAnswers))
       = [Text (dockerfileContent True ''4000'')]
   \<and> writesTo ''tsconfig.json'' (fst (run (freshEnv (npmInitManifest ''demo-app'')) demoAnswers))
       = [Json (tsconfig True)]"
proof -
  have c: "snd (run (freshEnv (npmInitManifest ''demo-app'')) demoAnswers) = Completed"
    by code_simp
  have m: "getProp (npmManifest (freshEnv (npmInitManifest ''demo-app''))) ''scripts''
             = Inr (Some (JObj [(''test'', JStr ''echo \"Error: no test specified\" && exit 1'')]))"
    by (simp add: freshEnv_def npmInitManifest_def)
  show ?thesis
    using demo_app_scenario [OF c m] c by blast
qed

section \<open>The Compose descriptor\<close>

lemma splitLines_nonempty: "splitLines s \<noteq> []"
  by (induction s) (auto split: list.splits)

lemma splitLines_splice:
  "CHR 0x0A \<notin> set p \<Longrightarrow>
     splitLines (p @ r) = (p @ hd (splitLines r)) # tl (splitLines r)"
proof (induction p)
  case Nil
  then show ?case using splitLines_nonempty [of r] by simp
next
  case (Cons c p)
  then show ?case by auto
qed

lemma compose_lines:
  assumes "CHR 0x0A \<notin> set n" and "CHR 0x0A \<notin> set p"
  shows "splitLines (dockerComposeContent n p) =
     [''version: \"3.8\"'', [], ''services:'', ''  app:'', ''    build: .'',
      ''    container_name: '' @ n, ''    ports:'',
      ''      - \"'' @ p @ '':'' @ p @ ''\"'', ''    environment:'',
      ''      - NODE_ENV=development'', ''      - PORT='' @ p, ''    volumes:'',
      ''      - .:/app'', ''      - /app/node_modules'', ''    command: npm run dev'', []]"
  using assms by (simp add: dockerComposeContent_def splitLines_splice)

text \<open>
  C4, as the code has it. When \<^verbatim>\<open>compose\<close> is ticked and the run reaches its end, the
  descriptor \<^verbatim>\<open>docker-compose.yml\<close> is written once; for a project name and a port
  text without line break, it declares exactly one service, whose name is the fixed word
  \<^verbatim>\<open>app\<close>, and the project name the run has settled on is the value of that service's
  \<^verbatim>\<open>container_name\<close>.
\<close>

theorem compose_service_is_app:
  assumes "snd (run e a) = Completed" and "''compose'' \<in> set (deploymentHelpers a)"
    and "snd (resolveConflict e (projectName a)) = Some name"
    and "CHR 0x0A \<notin> set name" and "CHR 0x0A \<notin> set (port a)"
  shows "writesTo ''docker-compose.yml'' (fst (run e a)) = [Text (dockerComposeContent name (port a))]
       \<and> composeServiceNames (dockerComposeContent name (port a)) = [''app'']
       \<and> ''    container_name: '' @ name \<in> set (splitLines (dockerComposeContent name (port a)))"
proof -
  have w: "writesTo ''docker-compose.yml'' (fst (run e a)) = [Text (dockerComposeContent name (port a))]"
    using run_deployment_writes [OF assms(1) assms(3), of "''docker-compose.yml''"] assms(2)
    by (simp add: deployment_writes)
  have s: "composeServiceNames (dockerComposeContent name (port a)) = [''app'']"
    by (simp add: composeServiceNames_def compose_lines [OF assms(4) assms(5)] startsWith_def)
  have c: "''    container_name: '' @ name \<in> set (splitLines (dockerComposeContent name (port a)))"
    by (simp add: compose_lines [OF assms(4) assms(5)])
  from w s c show ?thesis by blast
qed

theorem compose_service_is_app_witness:
  "snd (run (freshEnv (npmInitManifest ''demo-app'')) composeAnswers) = Completed
   \<and> ''compose'' \<in> set (deploymentHelpers composeAnswers)
   \<and> snd (resolveConflict (freshEnv (npmInitManifest ''demo-app'')) (projectName composeAnswers))
        = Some ''demo-app''
   \<and> CHR 0x0A \<notin> set ''demo-app'' \<and> CHR 0x0A \<notin> set (port composeAnswers)
   \<and> writesTo ''docker-compose.yml'' (fst (run (freshEnv (npmInitManifest ''demo-app'')) composeAnswers))
        = [Text (dockerComposeContent ''demo-app'' ''4000'')]
   \<and> ''    container_name: demo-app'' \<in> set (splitLines (dockerComposeContent ''demo-app'' ''4000''))"
proof -
  have c: "snd (run (freshEnv (npmInitManifest ''demo-app'')) composeAnswers) = Completed"
    by code_simp
  have h: "''compose'' \<in> set (deploymentHelpers composeAnswers)"
    by (simp add: composeAnswers_def)
  have n: "snd (resolveConflict (freshEnv (npmInitManifest ''demo-app'')) (projectName composeAnswers))
             = Some ''demo-app''"
    by (simp add: resolveConflict_def freshEnv_def composeAnswers_def demoAnswers_def)
  have l: "CHR 0x0A \<notin> set ''demo-app''" by simp
  have p: "port composeAnswers = ''4000''"
    by (simp add: composeAnswers_def demoAnswers_def)
  have q: "CHR 0x0A \<notin> set (port composeAnswers)"
    by (simp add: p)
  show ?thesis
    using compose_service_is_app [OF c h n l q] c h n q by (simp add: p)
qed

text \<open>
  C4 as stated fails: for the project \<^verbatim>\<open>demo-app\<close> with \<^verbatim>\<open>compose\<close> ticked, the
  descriptor written declares the service \<^verbatim>\<open>app\<close> and no service \<^verbatim>\<open>demo-app\<close>.
\<close>

theorem compose_service_name_counterexample:
  "''compose'' \<in> set (deploymentHelpers composeAnswers)
   \<and> writesTo ''docker-compose.yml'' (fst (run (freshEnv (npmInitManifest ''demo-app'')) composeAnswers))
        = [Text (dockerComposeContent ''demo-app'' ''4000'')]
   \<and> composeServiceNames (dockerComposeContent ''demo-app'' ''4000'') = [''app'']
   \<and> ''demo-app'' \<notin> set (composeServiceNames (dockerComposeContent ''demo-app'' ''4000''))"
  by code_simp

section \<open>The import suffix\<close>

lemma relImports_splice: "\<forall>c\<in>set p. \<not> isQuote c \<Longrightarrow> relImports (p @ r) = relImports r"
  by (induction p) auto

lemma logger_imports: "relImports LOGGER_TS_ESM = [] \<and> relImports LOGGER_TS_CJS = []"
  by code_simp

lemma db_imports_closed:
  "relImports (dbContent True True) = [] \<and> relImports (dbContent True False) = []
   \<and> relImports (dbContent False True) = [] \<and> relImports (dbContent False False) = []"
  by code_simp

lemma swagger_imports_closed:
  "relImports (swaggerContent True True) = [] \<and> relImports (swaggerContent True False) = []
   \<and> relImports (swaggerContent False True) = [] \<and> relImports (swaggerContent False False) = []"
  by code_simp

lemma transactionId_imports_closed:
  "relImports (transactionIdMiddlewareContent True True) = []
   \<and> relImports (transactionIdMiddlewareContent True False) = []
   \<and> relImports (transactionIdMiddlewareContent False True) = []
   \<and> relImports (transactionIdMiddlewareContent False False) = []"
  by code_simp

lemma loggerConsole_imports_closed:
  "relImports (loggerConsoleContent True True) = [] \<and> relImports (loggerConsoleContent True False) = []
   \<and> relImports (loggerConsoleContent False True) = [] \<and> relImports (loggerConsoleContent False False) = []"
  by code_simp

lemma errorHandler_imports_closed:
  "relImports (errorHandlerContent True True) = [] \<and> relImports (errorHandlerContent True False) = []
   \<and> relImports (errorHandlerContent False True) = [] \<and> relImports (errorHandlerContent False False) = []"
  by code_simp

lemma healthCheckRoute_imports_closed:
  "relImports (healthCheckRouteContent True True) = []
   \<and> relImports (healthCheckRouteContent True False) = []
   \<and> relImports (healthCheckRouteContent False True) = []
   \<and> relImports (healthCheckRouteContent False False) = []"
  by code_simp

lemma app_imports_closed:
  "map importSuffix (relImports (appFileContent True True ''.js'')) = replicate 5 ''.js''
   \<and> map importSuffix (relImports (appFileContent True False [])) = replicate 5 []
   \<and> map importSuffix (relImports (appFileContent False True ''.js'')) = replicate 5 ''.js''
   \<and> map importSuffix (relImports (appFileContent False False [])) = replicate 5 []"
  by code_simp

lemma stub_imports:
  "relImports (dbContent t m) = []" "relImports (swaggerContent t m) = []"
  "relImports (transactionIdMiddlewareContent t m) = []"
  "relImports (loggerConsoleContent t m) = []" "relImports (errorHandlerContent t m) = []"
  "relImports (healthCheckRouteContent t m) = []"
  using db_imports_closed swagger_imports_closed transactionId_imports_closed
    loggerConsole_imports_closed errorHandler_imports_closed healthCheckRoute_imports_closed
  by (cases t; cases m; simp)+

lemma app_imports:
  "map importSuffix (relImports (appFileContent t m (if m then ''.js'' else [])))
     = replicate 5 (if m then ''.js'' else [])"
  using app_imports_closed by (cases t; cases m; simp)

lemma server_imports_ts_esm:
  "\<forall>c\<in>set p. \<not> isQuote c \<Longrightarrow>
     relImports (serverFileContent True True ''.js'' p) = [''./app.js'', ''./utils/logger.js'', ''./config/db.js'']"
  by (simp add: serverFileContent_def relImports_splice isQuote_def startsWith_def)

lemma server_imports_ts_cjs:
  "\<forall>c\<in>set p. \<not> isQuote c \<Longrightarrow>
     relImports (serverFileContent True False [] p) = [''./app'', ''./utils/logger'', ''./config/db'']"
  by (simp add: serverFileContent_def relImports_splice isQuote_def startsWith_def)

lemma server_imports_js_esm:
  "\<forall>c\<in>set p. \<not> isQuote c \<Longrightarrow>
     relImports (serverFileContent False True ''.js'' p) = [''./app.js'', ''./utils/logger.js'', ''./config/db.js'']"
  by (simp add: serverFileContent_def relImports_splice isQuote_def startsWith_def)

lemma server_imports_js_cjs:
  "\<forall>c\<in>set p. \<not> isQuote c \<Longrightarrow>
     relImports (serverFileContent False False [] p) = [''./app'', ''./utils/logger'', ''./config/db'']"
  by (simp add: serverFileContent_def relImports_splice isQuote_def startsWith_def)

lemma suffix_values:
  "importSuffix ''./app.js'' = ''.js''" "importSuffix ''./utils/logger.js'' = ''.js''"
  "importSuffix ''./config/db.js'' = ''.js''"
  "importSuffix ''./app'' = []" "importSuffix ''./utils/logger'' = []"
  "importSuffix ''./config/db'' = []"
  by (simp_all add: importSuffix_def)

lemma server_imports:
  assumes "\<forall>c\<in>set p. \<not> isQuote c"
  shows "map importSuffix (relImports (serverFileContent t m (if m then ''.js'' else []) p))
           = replicate 3 (if m then ''.js'' else [])"
  using server_imports_ts_esm [OF assms] server_imports_ts_cjs [OF assms]
    server_imports_js_esm [OF assms] server_imports_js_cjs [OF assms]
  by (cases t; cases m; simp add: suffix_values numeral_3_eq_3)

text \<open>
  The templates agree among themselves. In each of the four combinations of language and
  module system, and for a port text without quote character (every decimal numeral is
  one), every relative module specifier in a generated source file (logger, the two config
  stubs, the three middleware files, the health route, the app entry and the server entry)
  carries the one suffix of the run: \<^verbatim>\<open>.js\<close> under ES modules, none under CommonJS.
  The app entry has five such specifiers and the server entry three; the other files have
  none.
\<close>

lemma template_import_suffix:
  assumes "\<forall>c\<in>set (port a). \<not> isQuote c"
  shows "(\<forall>(p, c)\<in>set (sourceArtifacts a). \<forall>s\<in>set (relImports c). importSuffix s = esmExt a)
       \<and> map importSuffix (relImports (appFileContent (isTS a) (isESM a) (esmExt a)))
           = replicate 5 (esmExt a)
       \<and> map importSuffix (relImports (serverFileContent (isTS a) (isESM a) (esmExt a) (port a)))
           = replicate 3 (esmExt a)
       \<and> esmExt a = (if isESM a then ''.js'' else [])"
proof -
  have x: "esmExt a = (if isESM a then ''.js'' else [])"
    by (simp add: esmExt_def)
  have app: "map importSuffix (relImports (appFileContent (isTS a) (isESM a) (esmExt a)))
           = replicate 5 (esmExt a)"
    unfolding x by (rule app_imports)
  have srv: "map importSuffix (relImports (serverFileContent (isTS a) (isESM a) (esmExt a) (port a)))
           = replicate 3 (esmExt a)"
    unfolding x by (rule server_imports [OF assms])
  have each: "importSuffix s = e" if "map importSuffix xs = replicate n e" and "s \<in> set xs"
    for s e n and xs :: "string list"
  proof -
    from that(2) have "importSuffix s \<in> set (map importSuffix xs)" by simp
    with that(1) show ?thesis by simp
  qed
  have lg: "relImports (loggerContent a) = []"
    using logger_imports
    by (simp add: loggerContent_def LOGGER_JS_ESM_def LOGGER_JS_CJS_def)
  have all: "\<forall>(p, c)\<in>set (sourceArtifacts a). \<forall>s\<in>set (relImports c). importSuffix s = esmExt a"
    using each [OF app] each [OF srv]
    by (simp add: sourceArtifacts_def stub_imports lg)
  from all app srv x show ?thesis by blast
qed

text \<open>
  C1, evaluated on the code. The port text \<^verbatim>\<open>80;import x from './y.ts'\<close> passes the
  validator of the port question (it parses to 80) and is the answer as typed. In a
  TypeScript project under ES modules, where the suffix of the run is \<^verbatim>\<open>.js\<close>, the
  server entry written by the run splices that text in and so has a fourth relative
  specifier, \<^verbatim>\<open>./y.ts\<close>, with the suffix \<^verbatim>\<open>.ts\<close>. The port text written as typed
  is the defect of C3.
\<close>

theorem import_suffix_broken_by_port_text:
  "askInput portQuestion [importingPort] = Some (importingPort, [])
   \<and> parseInt10 importingPort = Some 80
   \<and> isTS (demoAnswers\<lparr>port := importingPort\<rparr>) \<and> isESM (demoAnswers\<lparr>port := importingPort\<rparr>)
   \<and> esmExt (demoAnswers\<lparr>port := importingPort\<rparr>) = ''.js''
   \<and> writesTo ''src/server.ts''
         (fst (run (freshEnv (npmInitManifest ''demo-app'')) (demoAnswers\<lparr>port := importingPort\<rparr>)))
       = [Text (serverFileContent True True ''.js'' importingPort)]
   \<and> relImports (serverFileContent True True ''.js'' importingPort)
       = [''./app.js'', ''./utils/logger.js'', ''./config/db.js'', ''./y.ts'']
   \<and> map importSuffix (relImports (serverFileContent True True ''.js'' importingPort))
       = [''.js'', ''.js'', ''.js'', ''.ts'']"
  by code_simp

section \<open>What the prompts let through\<close>





text \<open>
  C3, evaluated on the code. The entry \<^verbatim>\<open>0080\<close> passes the validator of the port
  question (it parses to 80) and is the answer as typed: the environment file then has the
  line \<^verbatim>\<open>PORT=0080\<close>, the Dockerfile the line \<^verbatim>\<open>EXPOSE 0080\<close> and the Compose
  descriptor the mapping \<^verbatim>\<open>"0080:0080"\<close>. Likewise \<^verbatim>\<open>80abc\<close> passes and is written
  as \<^verbatim>\<open>EXPOSE 80abc\<close>.
\<close>

theorem port_text_written_as_typed:
  "askInput portQuestion [''0080''] = Some (''0080'', [])
   \<and> parseInt10 ''0080'' = Some 80
   \<and> writesTo ''.env''
        (fst (run (freshEnv (npmInitManifest ''demo-app'')) (composeAnswers\<lparr>port := ''0080''\<rparr>)))
       = [Text (''PORT=0080'' @ [CHR 0x0A] @ ''DB_URI='' @ [CHR 0x0A] @ ''API_VERSION=v1'' @ [CHR 0x0A])]
   \<and> ''EXPOSE 0080'' \<in> set (splitLines (dockerfileContent True ''0080''))
   \<and> ''      - \"0080:0080\"'' \<in> set (splitLines (dockerComposeContent ''demo-app'' ''0080''))
   \<and> askInput portQuestion [''80abc''] = Some (''80abc'', [])
   \<and> ''EXPOSE 80abc'' \<in> set (splitLines (dockerfileContent True ''80abc''))"
  by code_simp




end
